theory Spec2Isabelle
  imports Complex_Main "HOL-Library.Multiset"
begin

section \<open>PDF-Combine: the page list, the text editor and the export\<close>

text \<open>
  The program is one file, \<^verbatim>\<open>PDFCombine.py\<close>. Its state lives in Qt widgets: the
  assembled pages are the items of a \<^verbatim>\<open>QListWidget\<close>, each carrying a \<^verbatim>\<open>PageData\<close>
  object, and the text overlays being edited are the items of a \<^verbatim>\<open>QGraphicsScene\<close>.
  The widgets are modelled by explicit state; what a dialog or a library call hands
  back (chosen paths, opened documents, raised exceptions) is a parameter.
  Python floats are modelled by \<^typ>\<open>real\<close>: the arithmetic below is the expression the
  code evaluates, without rounding.
\<close>

subsection \<open>Exceptions and printed messages\<close>

datatype exn = IndexError | ZeroDivisionError | LibraryError string

text \<open>
  Every \<^verbatim>\<open>except Exception as e: print(...)\<close> of the program appends one message to the
  standard output; the exception value is kept in the message.
\<close>

datatype msg =
    ErrorProcessing string exn
  | ErrorReading string nat exn
  | ErrorDrawing exn
  | ErrorMerging exn
  | Exported string
  | ErrorExporting exn

subsection \<open>Data model\<close>

text \<open>
  One overlay is the dictionary built in \<^verbatim>\<open>getDirectTexts\<close>: keys \<^verbatim>\<open>text\<close>, \<^verbatim>\<open>x\<close>, \<^verbatim>\<open>y\<close>,
  \<^verbatim>\<open>font_family\<close>, \<^verbatim>\<open>font_size\<close>, \<^verbatim>\<open>color\<close> (the first three fields carry the
  prefix \<open>dt_\<close> here).
\<close>

record text_data =
  dt_text :: string
  dt_x :: real
  dt_y :: real
  font_family :: string
  font_size :: int
  color :: "real \<times> real \<times> real"

text \<open>
  \<^verbatim>\<open>class PageData\<close>. \<^verbatim>\<open>page_number\<close> is only ever assigned from \<^verbatim>\<open>enumerate\<close>, so it is
  a natural number.
\<close>

record 'img PageData =
  pdf_path :: string
  page_number :: nat
  pixmap :: 'img
  direct_texts :: "text_data list"

text \<open>
  A \<^verbatim>\<open>QListWidgetItem\<close>: the \<^verbatim>\<open>PageData\<close> stored under \<^verbatim>\<open>Qt.UserRole\<close>. Its caption,
  icon and size hint are presentation only and are left out. Which items are selected
  is kept by the view, not by the item; the program reads it with \<^verbatim>\<open>selectedItems()\<close>
  only, and what that call returns is a parameter of \<open>remove_selected\<close> below.
\<close>

record 'img QListWidgetItem =
  data :: "'img PageData"

subsection \<open>The list widget\<close>

text \<open>
  The \<^verbatim>\<open>QListWidget\<close> holds the items in row order and a current row, \<open>-1\<close> when there
  is none. The operations follow Qt: \<^verbatim>\<open>takeItem\<close> returns no item for a row out of
  range and changes nothing then; \<^verbatim>\<open>insertItem\<close> ignores a missing item and clamps the
  row to \<open>0..count\<close>; \<^verbatim>\<open>setCurrentRow\<close> with a row out of range leaves no current row.
  The current index follows its item when rows above it come or go; when the current
  row itself is taken it moves to the next row, or to the previous one at the end.
\<close>

record 'a QListWidget =
  items :: "'a list"
  current_row :: int

definition count_lw :: "'a QListWidget \<Rightarrow> int" where
  "count_lw lw = int (length (items lw))"

definition currentRow :: "'a QListWidget \<Rightarrow> int" where
  "currentRow lw = current_row lw"

definition row_after_take :: "int \<Rightarrow> int \<Rightarrow> int \<Rightarrow> int" where
  "row_after_take n r cur =
     (if cur < r then cur
      else if r < cur then cur - 1
      else if n = 1 then - 1
      else if r + 1 < n then r
      else r - 1)"

definition takeItem :: "int \<Rightarrow> 'a QListWidget \<Rightarrow> 'a option \<times> 'a QListWidget" where
  "takeItem r lw =
     (if 0 \<le> r \<and> r < count_lw lw
      then (Some (items lw ! nat r),
            lw\<lparr>items := take (nat r) (items lw) @ drop (Suc (nat r)) (items lw),
               current_row := row_after_take (count_lw lw) r (current_row lw)\<rparr>)
      else (None, lw))"

definition insertItem :: "int \<Rightarrow> 'a option \<Rightarrow> 'a QListWidget \<Rightarrow> 'a QListWidget" where
  "insertItem r item lw =
     (case item of
        None \<Rightarrow> lw
      | Some it \<Rightarrow>
          (let k = (if r < 0 then 0 else if count_lw lw < r then count_lw lw else r)
           in lw\<lparr>items := take (nat k) (items lw) @ it # drop (nat k) (items lw),
                 current_row := (if k \<le> current_row lw then current_row lw + 1
                                 else current_row lw)\<rparr>))"

definition addItem :: "'a \<Rightarrow> 'a QListWidget \<Rightarrow> 'a QListWidget" where
  "addItem it lw = lw\<lparr>items := items lw @ [it]\<rparr>"

definition setCurrentRow :: "int \<Rightarrow> 'a QListWidget \<Rightarrow> 'a QListWidget" where
  "setCurrentRow r lw =
     lw\<lparr>current_row := (if 0 \<le> r \<and> r < count_lw lw then r else - 1)\<rparr>"

subsection \<open>Reordering: \<^verbatim>\<open>move_up\<close> and \<open>move_down\<close>\<close>

definition move_up :: "'a QListWidget \<Rightarrow> 'a QListWidget" where
  "move_up lw =
     (let cur_row = currentRow lw in
      if cur_row > 0 then
        (let (item, lw1) = takeItem cur_row lw;
             lw2 = insertItem (cur_row - 1) item lw1
         in setCurrentRow (cur_row - 1) lw2)
      else lw)"

definition move_down :: "'a QListWidget \<Rightarrow> 'a QListWidget" where
  "move_down lw =
     (let cur_row = currentRow lw in
      if cur_row < count_lw lw - 1 \<and> cur_row \<noteq> - 1 then
        (let (item, lw1) = takeItem cur_row lw;
             lw2 = insertItem (cur_row + 1) item lw1
         in setCurrentRow (cur_row + 1) lw2)
      else lw)"

subsection \<open>Rasterising: \<^verbatim>\<open>convert_pdf_to_images\<close>, \<^verbatim>\<open>convert_pdf_page_to_image\<close>\<close>

text \<open>
  What PyMuPDF, PIL and Qt's image classes do is a parameter: opening a document gives
  its pages or raises, rendering a page at a zoom gives an image or raises, and the
  conversion inside \<^verbatim>\<open>pil2pixmap\<close> gives the pixmap or raises.
\<close>

record ('pg, 'img) raster_lib =
  fitz_open :: "string \<Rightarrow> exn + 'pg list"
  get_pixmap :: "'pg \<Rightarrow> real \<Rightarrow> exn + 'img"
  page_rect :: "'pg \<Rightarrow> real \<times> real"
  pil2pixmap :: "'img \<Rightarrow> exn + 'img"

fun render_pages ::
  "('pg, 'img) raster_lib \<Rightarrow> real \<Rightarrow> 'pg list \<Rightarrow> 'img list \<Rightarrow> exn + 'img list" where
  "render_pages lib zoom [] images = Inr images"
| "render_pages lib zoom (page # doc) images =
     (case get_pixmap lib page zoom of
        Inl e \<Rightarrow> Inl e
      | Inr img \<Rightarrow> render_pages lib zoom doc (images @ [img]))"

definition convert_pdf_to_images ::
  "('pg, 'img) raster_lib \<Rightarrow> string \<Rightarrow> real \<Rightarrow> exn + 'img list" where
  "convert_pdf_to_images lib path zoom =
     (case fitz_open lib path of
        Inl e \<Rightarrow> Inl e
      | Inr doc \<Rightarrow> render_pages lib zoom doc [])"

definition convert_pdf_page_to_image ::
  "('pg, 'img) raster_lib \<Rightarrow> string \<Rightarrow> nat \<Rightarrow> real \<Rightarrow> exn + ('img \<times> real \<times> real)" where
  "convert_pdf_page_to_image lib path n zoom =
     (case fitz_open lib path of
        Inl e \<Rightarrow> Inl e
      | Inr doc \<Rightarrow>
          if length doc \<le> n then Inl IndexError
          else (case get_pixmap lib (doc ! n) zoom of
                  Inl e \<Rightarrow> Inl e
                | Inr img \<Rightarrow> Inr (img, fst (page_rect lib (doc ! n)), snd (page_rect lib (doc ! n)))))"

subsection \<open>Adding and removing pages: \<^verbatim>\<open>add_pdf\<close>, \<^verbatim>\<open>remove_selected\<close>\<close>

text \<open>
  The inner loop of \<^verbatim>\<open>add_pdf\<close> over \<^verbatim>\<open>enumerate(pages)\<close>. An exception leaves the loop;
  the items added before it stay in the list.
\<close>

fun add_page_items ::
  "('pg, 'img) raster_lib \<Rightarrow> string \<Rightarrow> nat \<Rightarrow> 'img list \<Rightarrow> 'img QListWidgetItem QListWidget
     \<Rightarrow> 'img QListWidgetItem QListWidget \<times> exn option" where
  "add_page_items lib path i [] lw = (lw, None)"
| "add_page_items lib path i (page_image # pages) lw =
     (case pil2pixmap lib page_image of
        Inl e \<Rightarrow> (lw, Some e)
      | Inr qt_pix \<Rightarrow>
          add_page_items lib path (Suc i) pages
            (addItem \<lparr>data = \<lparr>pdf_path = path, page_number = i, pixmap = qt_pix,
                               direct_texts = []\<rparr>\<rparr> lw))"

definition add_path ::
  "('pg, 'img) raster_lib \<Rightarrow> string \<Rightarrow> 'img QListWidgetItem QListWidget \<times> msg list
     \<Rightarrow> 'img QListWidgetItem QListWidget \<times> msg list" where
  "add_path lib path st =
     (case convert_pdf_to_images lib path 1 of
        Inl e \<Rightarrow> (fst st, snd st @ [ErrorProcessing path e])
      | Inr pages \<Rightarrow>
          (case add_page_items lib path 0 pages (fst st) of
             (lw, None) \<Rightarrow> (lw, snd st)
           | (lw, Some e) \<Rightarrow> (lw, snd st @ [ErrorProcessing path e])))"

text \<open>
  \<^verbatim>\<open>add_pdf\<close>: \<open>file_paths\<close> is what the file dialog returned. The result is the list
  widget and the messages printed.
\<close>

definition add_pdf ::
  "('pg, 'img) raster_lib \<Rightarrow> string list \<Rightarrow> 'img QListWidgetItem QListWidget
     \<Rightarrow> 'img QListWidgetItem QListWidget \<times> msg list" where
  "add_pdf lib file_paths lw =
     (if file_paths = [] then (lw, [])
      else foldl (\<lambda>st path. add_path lib path st) (lw, []) file_paths)"

text \<open>
  \<^verbatim>\<open>remove_selected\<close>. \<open>selected_rows\<close> stands for the list \<^verbatim>\<open>selectedItems()\<close> returns:
  each item object is given by the row it is in when the call is made. Taking an item
  moves the items below it up by one row, so \<^verbatim>\<open>row(item)\<close> of an item further down
  the list of selected items is its row less the number of items taken above it, and
  \<open>-1\<close> once the item itself has been taken.
\<close>

definition row_after_removal :: "int \<Rightarrow> int \<Rightarrow> int" where
  "row_after_removal r k = (if k = r then - 1 else if r < k then k - 1 else k)"

fun take_items :: "int list \<Rightarrow> 'a QListWidget \<Rightarrow> 'a QListWidget" where
  "take_items [] lw = lw"
| "take_items (r # rows) lw =
     (case takeItem r lw of
        (None, lw1) \<Rightarrow> take_items rows lw1
      | (Some item, lw1) \<Rightarrow> take_items (map (row_after_removal r) rows) lw1)"

definition remove_selected :: "nat list \<Rightarrow> 'a QListWidget \<Rightarrow> 'a QListWidget" where
  "remove_selected selected_rows lw = take_items (map int selected_rows) lw"

subsection \<open>The text editor dialog\<close>

text \<open>
  A \<^verbatim>\<open>DirectTextItem\<close> as the user left it: position in the scene, text, font (family
  and point size), colour with channels \<open>0..255\<close>, focus.
\<close>

record DirectTextItem =
  item_pos :: "real \<times> real"
  plain_text :: string
  item_font :: "string \<times> int"
  default_text_color :: "int \<times> int \<times> int"
  has_focus :: bool

datatype scene_item = PixmapItem | TextItem DirectTextItem

text \<open>
  The \<^verbatim>\<open>QGraphicsScene\<close> is the list of its items in the order they were added. No item
  of the program has a parent or a Z value of its own, so the stacking order is the
  order of insertion, and \<^verbatim>\<open>scene.items()\<close>, whose default argument is
  \<^verbatim>\<open>Qt.DescendingOrder\<close>, lists the items from the topmost down: the one added last
  comes first.
\<close>

type_synonym QGraphicsScene = "scene_item list"

definition scene_addItem :: "scene_item \<Rightarrow> QGraphicsScene \<Rightarrow> QGraphicsScene" where
  "scene_addItem it sc = sc @ [it]"

definition scene_removeItem :: "nat \<Rightarrow> QGraphicsScene \<Rightarrow> QGraphicsScene" where
  "scene_removeItem i sc = take i sc @ drop (Suc i) sc"

definition scene_items :: "QGraphicsScene \<Rightarrow> scene_item list" where
  "scene_items sc = rev sc"

record 'img DirectTextDialog =
  direct_zoom :: real
  pdf_width :: real
  pdf_height :: real
  image :: 'img
  scene :: QGraphicsScene

text \<open>\<^verbatim>\<open>DirectTextDialog.__init__\<close>: the page is rendered and put into the scene first.\<close>

definition DirectTextDialog_init ::
  "('pg, 'img) raster_lib \<Rightarrow> string \<Rightarrow> nat \<Rightarrow> real \<Rightarrow> exn + 'img DirectTextDialog" where
  "DirectTextDialog_init lib path n zoom =
     (case convert_pdf_page_to_image lib path n zoom of
        Inl e \<Rightarrow> Inl e
      | Inr (pil_img, w, h) \<Rightarrow>
          (case pil2pixmap lib pil_img of
             Inl e \<Rightarrow> Inl e
           | Inr img \<Rightarrow>
               Inr \<lparr>direct_zoom = zoom, pdf_width = w, pdf_height = h, image = img,
                    scene = scene_addItem PixmapItem []\<rparr>))"

definition new_DirectTextItem :: "string \<Rightarrow> DirectTextItem" where
  "new_DirectTextItem t =
     \<lparr>item_pos = (0, 0), plain_text = t, item_font = (''Helvetica'', 12),
      default_text_color = (0, 0, 0), has_focus = False\<rparr>"

definition add_direct_text_item :: "'img DirectTextDialog \<Rightarrow> 'img DirectTextDialog" where
  "add_direct_text_item d =
     (let item = (new_DirectTextItem ''Double-click to edit'')\<lparr>item_pos := (50, 50)\<rparr>
      in d\<lparr>scene := scene_addItem (TextItem item) (scene d)\<rparr>)"

text \<open>
  \<^verbatim>\<open>DirectTextItem.contextMenuEvent\<close> on the item added \<open>i\<close>-th to the scene. The choice
  is the menu entry together with what the font or colour dialog returned (nothing
  when it was cancelled).
\<close>

datatype menu_choice =
    ChangeFont "(string \<times> int) option"
  | ChangeColor "(int \<times> int \<times> int) option"
  | DeleteText
  | NoAction

definition contextMenuEvent :: "menu_choice \<Rightarrow> nat \<Rightarrow> QGraphicsScene \<Rightarrow> QGraphicsScene" where
  "contextMenuEvent choice i sc =
     (if length sc \<le> i then sc
      else (case sc ! i of
              PixmapItem \<Rightarrow> sc
            | TextItem it \<Rightarrow>
                (case choice of
                   ChangeFont (Some f) \<Rightarrow> sc[i := TextItem (it\<lparr>item_font := f\<rparr>)]
                 | ChangeFont None \<Rightarrow> sc
                 | ChangeColor (Some c) \<Rightarrow> sc[i := TextItem (it\<lparr>default_text_color := c\<rparr>)]
                 | ChangeColor None \<Rightarrow> sc
                 | DeleteText \<Rightarrow> scene_removeItem i sc
                 | NoAction \<Rightarrow> sc)))"

subsection \<open>Committing the editor: \<^verbatim>\<open>getDirectTexts\<close>\<close>

definition pdf_x :: "real \<Rightarrow> real \<Rightarrow> exn + real" where
  "pdf_x zoom sx = (if zoom = 0 then Inl ZeroDivisionError else Inr (sx / zoom))"

definition pdf_y :: "real \<Rightarrow> real \<Rightarrow> real \<Rightarrow> exn + real" where
  "pdf_y height zoom sy =
     (if zoom = 0 then Inl ZeroDivisionError else Inr (height - (sy / zoom)))"

text \<open>The body of the second loop, for one \<^verbatim>\<open>DirectTextItem\<close>.\<close>

definition direct_text_of :: "real \<Rightarrow> real \<Rightarrow> DirectTextItem \<Rightarrow> exn + text_data" where
  "direct_text_of zoom height item =
     (case pdf_x zoom (fst (item_pos item)) of
        Inl e \<Rightarrow> Inl e
      | Inr px \<Rightarrow>
          (case pdf_y height zoom (snd (item_pos item)) of
             Inl e \<Rightarrow> Inl e
           | Inr py \<Rightarrow>
               (case default_text_color item of
                  (red, green, blue) \<Rightarrow>
                    Inr \<lparr>dt_text = plain_text item, dt_x = px, dt_y = py,
                         font_family = fst (item_font item),
                         font_size = snd (item_font item),
                         color = (real_of_int red / 255, real_of_int green / 255,
                                  real_of_int blue / 255)\<rparr>)))"

fun collect_texts ::
  "real \<Rightarrow> real \<Rightarrow> scene_item list \<Rightarrow> text_data list \<Rightarrow> exn + text_data list" where
  "collect_texts zoom height [] texts = Inr texts"
| "collect_texts zoom height (PixmapItem # rest) texts = collect_texts zoom height rest texts"
| "collect_texts zoom height (TextItem item # rest) texts =
     (case direct_text_of zoom height item of
        Inl e \<Rightarrow> Inl e
      | Inr td \<Rightarrow> collect_texts zoom height rest (texts @ [td]))"

definition clearFocus :: "scene_item \<Rightarrow> scene_item" where
  "clearFocus it =
     (case it of
        PixmapItem \<Rightarrow> PixmapItem
      | TextItem item \<Rightarrow> if has_focus item then TextItem (item\<lparr>has_focus := False\<rparr>) else it)"

text \<open>
  \<^verbatim>\<open>getDirectTexts\<close>: the first loop takes the focus from every text item, the second
  walks \<^verbatim>\<open>scene.items()\<close> and appends one dictionary per text item.
\<close>

definition getDirectTexts ::
  "'img DirectTextDialog \<Rightarrow> 'img DirectTextDialog \<times> (exn + text_data list)" where
  "getDirectTexts d =
     (let d1 = d\<lparr>scene := map clearFocus (scene d)\<rparr>
      in (d1, collect_texts (direct_zoom d1) (pdf_height d1) (scene_items (scene d1)) []))"

text \<open>
  \<^verbatim>\<open>open_direct_text_dialog\<close> for the item that was double-clicked. \<open>user\<close> is the
  modal session (\<^verbatim>\<open>exec_\<close>): it returns the dialog as the user left it and whether it was
  accepted. An exception of the constructor or of \<^verbatim>\<open>getDirectTexts\<close> is not caught
  here.
\<close>

definition open_direct_text_dialog ::
  "('pg, 'img) raster_lib \<Rightarrow> ('img DirectTextDialog \<Rightarrow> 'img DirectTextDialog \<times> bool)
     \<Rightarrow> 'img QListWidgetItem \<Rightarrow> exn + 'img QListWidgetItem" where
  "open_direct_text_dialog lib user item =
     (let page_data = data item in
      case DirectTextDialog_init lib (pdf_path page_data) (page_number page_data) 2 of
        Inl e \<Rightarrow> Inl e
      | Inr dialog \<Rightarrow>
          (case user dialog of
             (dialog1, accepted) \<Rightarrow>
               if accepted then
                 (case snd (getDirectTexts dialog1) of
                    Inl e \<Rightarrow> Inl e
                  | Inr texts \<Rightarrow> Inr (item\<lparr>data := page_data\<lparr>direct_texts := texts\<rparr>\<rparr>))
               else Inr item))"

subsection \<open>The export: \<^verbatim>\<open>export_pdf\<close>\<close>

text \<open>
  A page object of PyPDF2: the page as read from its source, and the layer merged onto
  it, if any. A layer is the list of strings drawn on the canvas, in drawing order,
  each with the font and fill colour that were active.
\<close>

record drawn_text =
  d_string :: string
  d_x :: real
  d_y :: real
  d_font :: "string \<times> int"
  d_fill :: "real \<times> real \<times> real"

record 'p pdf_page =
  content :: 'p
  layer :: "drawn_text list option"

record canvas =
  pagesize :: "real \<times> real"
  c_font :: "string \<times> int"
  c_fill :: "real \<times> real \<times> real"
  c_ops :: "drawn_text list"

text \<open>
  What PyPDF2, reportlab and the file system do is a parameter, and every call may
  raise. The program catches the exception where the call is inside a \<^verbatim>\<open>try\<close>: opening
  and parsing a source, the three canvas calls of one overlay, reading the generated
  overlay document back, merging it, and writing the output file. The other calls are
  outside every \<^verbatim>\<open>try\<close>, and an exception of one of them leaves \<^verbatim>\<open>export_pdf\<close>: creating
  the writer (line 334), reading the width and height of the media box (lines 345 and
  346), creating the packet and the canvas (lines 347 and 348), saving the canvas and
  rewinding the packet (lines 357 and 358), and \<^verbatim>\<open>add_page\<close> (line 365). The media box is
  read with \<^verbatim>\<open>getWidth()\<close> and \<^verbatim>\<open>getHeight()\<close>, which PyPDF2 has from version 3.0 on only
  as calls that raise. A merge that raises is taken to leave the page as it was read.
\<close>

record 'p export_lib =
  PdfWriter_raises :: "exn option"
  PdfReader :: "string \<Rightarrow> exn + 'p list"
  mediabox :: "'p \<Rightarrow> exn + real \<times> real"
  Canvas_raises :: "real \<times> real \<Rightarrow> exn option"
  setFont_raises :: "string \<Rightarrow> int \<Rightarrow> exn option"
  setFillColorRGB_raises :: "real \<Rightarrow> real \<Rightarrow> real \<Rightarrow> exn option"
  drawString_raises :: "real \<Rightarrow> real \<Rightarrow> string \<Rightarrow> exn option"
  save_raises :: "canvas \<Rightarrow> exn option"
  read_packet_raises :: "canvas \<Rightarrow> exn option"
  merge_page_raises :: "'p \<Rightarrow> drawn_text list \<Rightarrow> exn option"
  add_page_raises :: "'p pdf_page \<Rightarrow> exn option"
  write_raises :: "string \<Rightarrow> 'p pdf_page list \<Rightarrow> exn option"

text \<open>Lines 339 and 340: the reader and \<^verbatim>\<open>pdf_reader.pages[page_number]\<close>.\<close>

definition read_src_page :: "'p export_lib \<Rightarrow> 'img PageData \<Rightarrow> exn + 'p" where
  "read_src_page lib page_data =
     (case PdfReader lib (pdf_path page_data) of
        Inl e \<Rightarrow> Inl e
      | Inr pages \<Rightarrow>
          if length pages \<le> page_number page_data then Inl IndexError
          else Inr (pages ! page_number page_data))"

definition Canvas :: "real \<times> real \<Rightarrow> canvas" where
  "Canvas page_size = \<lparr>pagesize = page_size, c_font = (''Helvetica'', 12), c_fill = (0, 0, 0), c_ops = []\<rparr>"

text \<open>
  The \<^verbatim>\<open>try\<close> block for one overlay. reportlab's \<^verbatim>\<open>setFont\<close> stores the name and size
  before it looks the font up.
\<close>

definition draw_text_data :: "'p export_lib \<Rightarrow> text_data \<Rightarrow> canvas \<Rightarrow> canvas \<times> exn option" where
  "draw_text_data lib td can =
     (let can1 = can\<lparr>c_font := (font_family td, font_size td)\<rparr> in
      case setFont_raises lib (font_family td) (font_size td) of
        Some e \<Rightarrow> (can1, Some e)
      | None \<Rightarrow>
          (case color td of
             (r, g, b) \<Rightarrow>
               (case setFillColorRGB_raises lib r g b of
                  Some e \<Rightarrow> (can1, Some e)
                | None \<Rightarrow>
                    (let can2 = can1\<lparr>c_fill := (r, g, b)\<rparr> in
                     case drawString_raises lib (dt_x td) (dt_y td) (dt_text td) of
                       Some e \<Rightarrow> (can2, Some e)
                     | None \<Rightarrow>
                         (can2\<lparr>c_ops := c_ops can2 @
                              [\<lparr>d_string = dt_text td, d_x = dt_x td, d_y = dt_y td,
                                d_font = c_font can2, d_fill = c_fill can2\<rparr>]\<rparr>,
                          None)))))"

text \<open>The loop over \<^verbatim>\<open>page_data.direct_texts\<close>, with its \<^verbatim>\<open>except\<close>.\<close>

fun draw_direct_texts ::
  "'p export_lib \<Rightarrow> text_data list \<Rightarrow> canvas \<times> msg list \<Rightarrow> canvas \<times> msg list" where
  "draw_direct_texts lib [] st = st"
| "draw_direct_texts lib (td # rest) st =
     draw_direct_texts lib rest
       (case draw_text_data lib td (fst st) of
          (can, None) \<Rightarrow> (can, snd st)
        | (can, Some e) \<Rightarrow> (can, snd st @ [ErrorDrawing e]))"

text \<open>The second \<^verbatim>\<open>try\<close> of the loop body: read the overlay page and merge it.\<close>

definition merge_overlay ::
  "'p export_lib \<Rightarrow> canvas \<Rightarrow> 'p pdf_page \<Rightarrow> 'p pdf_page \<times> exn option" where
  "merge_overlay lib can src_page =
     (case read_packet_raises lib can of
        Some e \<Rightarrow> (src_page, Some e)
      | None \<Rightarrow>
          (case merge_page_raises lib (content src_page) (c_ops can) of
             Some e \<Rightarrow> (src_page, Some e)
           | None \<Rightarrow> (src_page\<lparr>layer := Some (c_ops can)\<rparr>, None)))"

text \<open>
  The state of the export loop: the pages added to the \<^verbatim>\<open>PdfWriter\<close> and the messages
  printed. A round of the loop either returns the next state or is left by an
  exception that nothing catches; the exception is kept together with the messages
  printed up to it.
\<close>

record 'p export_state =
  out_pages :: "'p pdf_page list"
  printed :: "msg list"

type_synonym uncaught = "exn \<times> msg list"

text \<open>Line 365, \<^verbatim>\<open>output.add_page(src_page)\<close>.\<close>

definition add_page :: "'p export_lib \<Rightarrow> 'p pdf_page \<Rightarrow> 'p export_state \<Rightarrow> uncaught + 'p export_state" where
  "add_page lib page st =
     (case add_page_raises lib page of
        Some e \<Rightarrow> Inl (e, printed st)
      | None \<Rightarrow> Inr (st\<lparr>out_pages := out_pages st @ [page]\<rparr>))"

text \<open>One round of the loop over the rows of the list, lines 336 to 365.\<close>

definition export_entry ::
  "'p export_lib \<Rightarrow> 'img PageData \<Rightarrow> 'p export_state \<Rightarrow> uncaught + 'p export_state" where
  "export_entry lib page_data st =
     (case read_src_page lib page_data of
        Inl e \<Rightarrow>
          Inr (st\<lparr>printed := printed st @
                 [ErrorReading (pdf_path page_data) (page_number page_data + 1) e]\<rparr>)
      | Inr p \<Rightarrow>
          (let src_page = \<lparr>content = p, layer = None\<rparr> in
           if direct_texts page_data \<noteq> [] then
             (case mediabox lib p of
                Inl e \<Rightarrow> Inl (e, printed st)
              | Inr page_size \<Rightarrow>
                  (case Canvas_raises lib page_size of
                     Some e \<Rightarrow> Inl (e, printed st)
                   | None \<Rightarrow>
                       (case draw_direct_texts lib (direct_texts page_data)
                               (Canvas page_size, printed st) of
                          (can, out) \<Rightarrow>
                            (case save_raises lib can of
                               Some e \<Rightarrow> Inl (e, out)
                             | None \<Rightarrow>
                                 (case merge_overlay lib can src_page of
                                    (page, None) \<Rightarrow>
                                      add_page lib page
                                        \<lparr>out_pages = out_pages st, printed = out\<rparr>
                                  | (page, Some e) \<Rightarrow>
                                      add_page lib page
                                        \<lparr>out_pages = out_pages st,
                                         printed = out @ [ErrorMerging e]\<rparr>)))))
           else add_page lib src_page st))"

text \<open>The loop: an exception that leaves one round leaves the loop.\<close>

fun export_entries ::
  "'p export_lib \<Rightarrow> 'img PageData list \<Rightarrow> 'p export_state \<Rightarrow> uncaught + 'p export_state" where
  "export_entries lib [] st = Inr st"
| "export_entries lib (page_data # rest) st =
     (case export_entry lib page_data st of
        Inl u \<Rightarrow> Inl u
      | Inr st1 \<Rightarrow> export_entries lib rest st1)"

text \<open>
  The result of \<^verbatim>\<open>export_pdf\<close>: the messages printed; when the write went through, the
  path and the pages written; and the exception, if one left \<^verbatim>\<open>export_pdf\<close> uncaught.
  \<open>export_path\<close> is what the save dialog returned, empty when it was cancelled.
\<close>

record 'p export_result =
  messages :: "msg list"
  written :: "(string \<times> 'p pdf_page list) option"
  raised :: "exn option"

definition export_pdf ::
  "'p export_lib \<Rightarrow> string \<Rightarrow> 'img QListWidgetItem QListWidget \<Rightarrow> 'p export_result" where
  "export_pdf lib export_path lw =
     (if export_path = [] then \<lparr>messages = [], written = None, raised = None\<rparr>
      else
        (case PdfWriter_raises lib of
           Some e \<Rightarrow> \<lparr>messages = [], written = None, raised = Some e\<rparr>
         | None \<Rightarrow>
             (case export_entries lib (map data (items lw)) \<lparr>out_pages = [], printed = []\<rparr> of
                Inl (e, out) \<Rightarrow> \<lparr>messages = out, written = None, raised = Some e\<rparr>
              | Inr st \<Rightarrow>
                  (case write_raises lib export_path (out_pages st) of
                     None \<Rightarrow> \<lparr>messages = printed st @ [Exported export_path],
                              written = Some (export_path, out_pages st), raised = None\<rparr>
                   | Some e \<Rightarrow> \<lparr>messages = printed st @ [ErrorExporting e], written = None,
                               raised = None\<rparr>))))"

text \<open>
  The program keeps no state of the export. How a run ended shows in the last message
  alone: \<^verbatim>\<open>Exported combined PDF to ...\<close> after the write, \<^verbatim>\<open>Error exporting PDF\<close> when
  the write raised. A run has neither as its last message when the save dialog was
  cancelled or when an uncaught exception left \<^verbatim>\<open>export_pdf\<close> before the write.
\<close>

datatype outcome = Unfinished | Completed | Failed

fun outcome_of :: "msg list \<Rightarrow> outcome" where
  "outcome_of [] = Unfinished"
| "outcome_of [Exported path] = Completed"
| "outcome_of [ErrorExporting e] = Failed"
| "outcome_of [m] = Unfinished"
| "outcome_of (m # ms) = outcome_of ms"

subsection \<open>Notions used to state the properties\<close>

text \<open>The \<^verbatim>\<open>DirectTextItem\<close>s among scene items (the \<^verbatim>\<open>isinstance\<close> test), in the given order.\<close>

fun text_items :: "scene_item list \<Rightarrow> DirectTextItem list" where
  "text_items [] = []"
| "text_items (PixmapItem # rest) = text_items rest"
| "text_items (TextItem item # rest) = item # text_items rest"

text \<open>
  What one round of the export loop does, read off a run of \<open>export_entry\<close> from the
  empty state: the exception that leaves it uncaught, if any, the pages it appends to
  the writer, and the messages it prints.
\<close>

definition entry_raises :: "'p export_lib \<Rightarrow> 'img PageData \<Rightarrow> exn option" where
  "entry_raises lib page_data =
     (case export_entry lib page_data \<lparr>out_pages = [], printed = []\<rparr> of
        Inl (e, out) \<Rightarrow> Some e
      | Inr st \<Rightarrow> None)"

definition entry_pages :: "'p export_lib \<Rightarrow> 'img PageData \<Rightarrow> 'p pdf_page list" where
  "entry_pages lib page_data =
     (case export_entry lib page_data \<lparr>out_pages = [], printed = []\<rparr> of
        Inl (e, out) \<Rightarrow> []
      | Inr st \<Rightarrow> out_pages st)"

definition entry_messages :: "'p export_lib \<Rightarrow> 'img PageData \<Rightarrow> msg list" where
  "entry_messages lib page_data =
     (case export_entry lib page_data \<lparr>out_pages = [], printed = []\<rparr> of
        Inl (e, out) \<Rightarrow> out
      | Inr st \<Rightarrow> printed st)"

text \<open>
  The exception, if any, that the \<^verbatim>\<open>try\<close> block of one overlay ends with, and the entry
  a successful block adds to the canvas.
\<close>

definition draw_exn :: "'p export_lib \<Rightarrow> text_data \<Rightarrow> exn option" where
  "draw_exn lib td = snd (draw_text_data lib td (Canvas (0, 0)))"

definition drawn_of :: "text_data \<Rightarrow> drawn_text" where
  "drawn_of td =
     \<lparr>d_string = dt_text td, d_x = dt_x td, d_y = dt_y td,
      d_font = (font_family td, font_size td), d_fill = color td\<rparr>"

text \<open>The canvas of a page of the given size after the loop over its overlays.\<close>

definition overlay_canvas :: "'p export_lib \<Rightarrow> real \<times> real \<Rightarrow> text_data list \<Rightarrow> canvas" where
  "overlay_canvas lib page_size tds = fst (draw_direct_texts lib tds (Canvas page_size, []))"

text \<open>The messages that end a run.\<close>

fun is_end_message :: "msg \<Rightarrow> bool" where
  "is_end_message (Exported path) = True"
| "is_end_message (ErrorExporting e) = True"
| "is_end_message m = False"

text \<open>
  Modelled from the spec: \<open>pdf_to_screen\<close>, the inverse of the transform applied at
  commit. The program has no such function (a reopened editor starts from an empty
  scene); the spec's section 4.2 asks for "the exact inverse" of
  \<open>px = sx / zoom\<close>, \<open>py = page_height_pt - sy / zoom\<close>.
\<close>

definition pdf_to_screen :: "real \<times> real \<Rightarrow> real \<Rightarrow> real \<Rightarrow> real \<times> real" where
  "pdf_to_screen p zoom page_height_pt =
     (fst p * zoom, (page_height_pt - snd p) * zoom)"

text \<open>The page of the source that an entry resolves to, if it does.\<close>

definition readable_page :: "'p export_lib \<Rightarrow> 'img PageData \<Rightarrow> 'p option" where
  "readable_page lib page_data =
     (case read_src_page lib page_data of Inl e \<Rightarrow> None | Inr p \<Rightarrow> Some p)"

subsection \<open>Example inputs\<close>

text \<open>
  Two sources, \<^verbatim>\<open>a.pdf\<close> with pages 1 and 2 and \<^verbatim>\<open>b.pdf\<close> with page 3; every other path
  cannot be opened. Only Helvetica and Courier are known fonts. In \<open>example_lib\<close> no
  call outside a \<^verbatim>\<open>try\<close> raises, as with PyPDF2 before version 3.0; in
  \<open>example_lib_no_getWidth\<close> reading the media box raises, as from version 3.0 on.
\<close>

definition example_reader :: "string \<Rightarrow> exn + nat list" where
  "example_reader path =
     (if path = ''a.pdf'' then Inr [1, 2]
      else if path = ''b.pdf'' then Inr [3]
      else Inl (LibraryError ''FileNotFoundError''))"

definition example_setFont :: "string \<Rightarrow> int \<Rightarrow> exn option" where
  "example_setFont name pt =
     (if name = ''Helvetica'' \<or> name = ''Courier'' then None else Some (LibraryError ''KeyError''))"

definition never_raises2 :: "'a \<Rightarrow> 'b \<Rightarrow> exn option" where
  "never_raises2 a b = None"

definition never_raises3 :: "'a \<Rightarrow> 'b \<Rightarrow> 'c \<Rightarrow> exn option" where
  "never_raises3 a b c = None"

definition never_raises1 :: "'a \<Rightarrow> exn option" where
  "never_raises1 a = None"

definition letter_size :: "nat \<Rightarrow> real \<times> real" where
  "letter_size p = (612, 792)"

definition letter_mediabox :: "nat \<Rightarrow> exn + real \<times> real" where
  "letter_mediabox p = Inr (612, 792)"

definition example_lib :: "nat export_lib" where
  "example_lib =
     \<lparr>PdfWriter_raises = None, PdfReader = example_reader, mediabox = letter_mediabox,
      Canvas_raises = never_raises1, setFont_raises = example_setFont,
      setFillColorRGB_raises = never_raises3, drawString_raises = never_raises3,
      save_raises = never_raises1, read_packet_raises = never_raises1,
      merge_page_raises = never_raises2, add_page_raises = never_raises1,
      write_raises = never_raises2\<rparr>"

definition getWidth_raises :: "nat \<Rightarrow> exn + real \<times> real" where
  "getWidth_raises p = Inl (LibraryError ''DeprecationError'')"

definition example_lib_no_getWidth :: "nat export_lib" where
  "example_lib_no_getWidth = example_lib\<lparr>mediabox := getWidth_raises\<rparr>"

definition merge_always_raises :: "nat \<Rightarrow> drawn_text list \<Rightarrow> exn option" where
  "merge_always_raises p ops = Some (LibraryError ''merge_page'')"

definition example_lib_bad_merge :: "nat export_lib" where
  "example_lib_bad_merge = example_lib\<lparr>merge_page_raises := merge_always_raises\<rparr>"

definition page_entry :: "string \<Rightarrow> nat \<Rightarrow> text_data list \<Rightarrow> unit QListWidgetItem" where
  "page_entry path n tds =
     \<lparr>data = \<lparr>pdf_path = path, page_number = n, pixmap = (), direct_texts = tds\<rparr>\<rparr>"

definition hi_text :: "string \<Rightarrow> text_data" where
  "hi_text family =
     \<lparr>dt_text = ''Hi'', dt_x = 72, dt_y = 72, font_family = family, font_size = 12,
      color = (0, 0, 0)\<rparr>"

text \<open>
  An editor on a 612 by 792 page at zoom 2 in which a first text item is added and
  given the font Courier 10, and then a second one is added.
\<close>

definition example_dialog :: "unit DirectTextDialog" where
  "example_dialog =
     \<lparr>direct_zoom = 2, pdf_width = 612, pdf_height = 792, image = (),
      scene = scene_addItem PixmapItem []\<rparr>"

definition example_session :: "unit DirectTextDialog" where
  "example_session =
     (let d1 = add_direct_text_item example_dialog;
          d2 = d1\<lparr>scene := contextMenuEvent (ChangeFont (Some (''Courier'', 10))) 1 (scene d1)\<rparr>
      in add_direct_text_item d2)"

text \<open>A rasteriser for which \<^verbatim>\<open>a.pdf\<close> has two pages and nothing raises.\<close>

definition example_fitz_open :: "string \<Rightarrow> exn + nat list" where
  "example_fitz_open path =
     (if path = ''a.pdf'' then Inr [1, 2] else Inl (LibraryError ''FileNotFoundError''))"

definition example_get_pixmap :: "nat \<Rightarrow> real \<Rightarrow> exn + nat" where
  "example_get_pixmap page zoom = Inr (100 + page)"

definition example_pil2pixmap :: "nat \<Rightarrow> exn + nat" where
  "example_pil2pixmap img = Inr img"

definition example_raster :: "(nat, nat) raster_lib" where
  "example_raster =
     \<lparr>fitz_open = example_fitz_open, get_pixmap = example_get_pixmap,
      page_rect = letter_size, pil2pixmap = example_pil2pixmap\<rparr>"

section \<open>Properties\<close>

subsection \<open>Reordering\<close>

lemma mset_insert_at: "mset (take j ys @ a # drop j ys) = add_mset a (mset ys)"
proof -
  have "mset (take j ys) + mset (drop j ys) = mset ys"
    by (metis append_take_drop_id mset_append)
  then show ?thesis by simp
qed

lemma mset_remove_at:
  assumes "i < length xs"
  shows "add_mset (xs ! i) (mset (take i xs @ drop (Suc i) xs)) = mset xs"
proof -
  have "xs = take i xs @ xs ! i # drop (Suc i) xs"
    using assms by (rule id_take_nth_drop)
  then have "mset xs = mset (take i xs @ xs ! i # drop (Suc i) xs)" by simp
  then show ?thesis by simp
qed

lemma items_setCurrentRow [simp]: "items (setCurrentRow r lw) = items lw"
  by (simp add: setCurrentRow_def)

lemma mset_items_insertItem:
  "mset (items (insertItem k item lw)) =
     (case item of None \<Rightarrow> mset (items lw) | Some it \<Rightarrow> add_mset it (mset (items lw)))"
  by (cases item) (simp_all add: insertItem_def Let_def mset_insert_at del: mset_append)

lemma takeItem_cases:
  obtains (out) "\<not> (0 \<le> r \<and> r < count_lw lw)" "takeItem r lw = (None, lw)"
  | (inside) lw1 where "0 \<le> r" "nat r < length (items lw)"
      "takeItem r lw = (Some (items lw ! nat r), lw1)"
      "items lw1 = take (nat r) (items lw) @ drop (Suc (nat r)) (items lw)"
proof (cases "0 \<le> r \<and> r < count_lw lw")
  case False
  then have "takeItem r lw = (None, lw)" by (auto simp: takeItem_def)
  with False show ?thesis by (rule out)
next
  case True
  then have n: "nat r < length (items lw)" by (simp add: count_lw_def nat_less_iff)
  from True show ?thesis
    by (intro inside[of "snd (takeItem r lw)"]) (simp_all add: takeItem_def n)
qed

lemma mset_take_insert:
  "mset (items (insertItem k (fst (takeItem r lw)) (snd (takeItem r lw)))) = mset (items lw)"
proof (cases r lw rule: takeItem_cases)
  case out
  then show ?thesis by (simp add: insertItem_def)
next
  case (inside lw1)
  then show ?thesis
    by (simp add: mset_items_insertItem mset_remove_at del: mset_append)
qed

lemma move_up_mset: "mset (items (move_up lw)) = mset (items lw)"
  using mset_take_insert[of "currentRow lw - 1" "currentRow lw" lw]
  by (simp add: move_up_def Let_def split_beta)

lemma move_down_mset: "mset (items (move_down lw)) = mset (items lw)"
  using mset_take_insert[of "currentRow lw + 1" "currentRow lw" lw]
  by (simp add: move_down_def Let_def split_beta)

lemma move_down_at:
  "move_down \<lparr>items = p @ a # b # r, current_row = int (length p)\<rparr> =
     \<lparr>items = p @ b # a # r, current_row = int (length p) + 1\<rparr>"
  by (simp add: move_down_def currentRow_def count_lw_def takeItem_def insertItem_def
       setCurrentRow_def row_after_take_def Let_def nat_add_distrib)

lemma move_up_at:
  "move_up \<lparr>items = p @ a # b # r, current_row = int (length p) + 1\<rparr> =
     \<lparr>items = p @ b # a # r, current_row = int (length p)\<rparr>"
  by (simp add: move_up_def currentRow_def count_lw_def takeItem_def insertItem_def
       setCurrentRow_def row_after_take_def Let_def nat_add_distrib nth_append)

lemma split_at_two:
  assumes "Suc i < length xs"
  shows "xs = take i xs @ xs ! i # xs ! Suc i # drop (Suc (Suc i)) xs" "length (take i xs) = i"
proof -
  have "drop i xs = xs ! i # drop (Suc i) xs"
    using assms by (simp add: Cons_nth_drop_Suc)
  moreover have "drop (Suc i) xs = xs ! Suc i # drop (Suc (Suc i)) xs"
    using assms by (simp add: Cons_nth_drop_Suc)
  ultimately have "take i xs @ xs ! i # xs ! Suc i # drop (Suc (Suc i)) xs = take i xs @ drop i xs"
    by simp
  then show "xs = take i xs @ xs ! i # xs ! Suc i # drop (Suc (Suc i)) xs" by simp
  show "length (take i xs) = i" using assms by simp
qed

lemma move_up_boundary: "current_row lw \<le> 0 \<Longrightarrow> move_up lw = lw"
  by (simp add: move_up_def currentRow_def)

lemma move_down_boundary:
  "current_row lw = - 1 \<or> count_lw lw - 1 \<le> current_row lw \<Longrightarrow> move_down lw = lw"
  by (auto simp add: move_down_def currentRow_def)

lemma move_down_position:
  assumes "0 \<le> current_row lw" "current_row lw < count_lw lw"
  shows "current_row (move_down lw) = min (count_lw lw - 1) (current_row lw + 1)
     \<and> items (move_down lw) ! nat (current_row (move_down lw)) = items lw ! nat (current_row lw)"
proof (cases "current_row lw < count_lw lw - 1")
  case False
  with assms have "move_down lw = lw" by (simp add: move_down_boundary)
  with False assms show ?thesis by simp
next
  case True
  define i where "i = nat (current_row lw)"
  have ci: "current_row lw = int i" using assms by (simp add: i_def)
  have i: "Suc i < length (items lw)" using True ci by (simp add: count_lw_def)
  obtain p a b r where xs: "items lw = p @ a # b # r" and p: "length p = i"
    using split_at_two[OF i] by blast
  have lw: "lw = \<lparr>items = p @ a # b # r, current_row = int (length p)\<rparr>"
    using xs p ci by simp
  have "move_down lw = \<lparr>items = p @ b # a # r, current_row = int (length p) + 1\<rparr>"
    by (subst lw) (rule move_down_at)
  then show ?thesis
    using True ci p xs by (simp add: count_lw_def nat_add_distrib nth_append)
qed

lemma move_up_position:
  assumes "0 \<le> current_row lw" "current_row lw < count_lw lw"
  shows "current_row (move_up lw) = max 0 (current_row lw - 1)
     \<and> items (move_up lw) ! nat (current_row (move_up lw)) = items lw ! nat (current_row lw)"
proof (cases "0 < current_row lw")
  case False
  with assms have "move_up lw = lw" by (simp add: move_up_boundary)
  with False assms show ?thesis by simp
next
  case True
  define i where "i = nat (current_row lw - 1)"
  have ci: "current_row lw = int i + 1" using True by (simp add: i_def)
  have i: "Suc i < length (items lw)" using assms ci by (simp add: count_lw_def)
  obtain p a b r where xs: "items lw = p @ a # b # r" and p: "length p = i"
    using split_at_two[OF i] by blast
  have lw: "lw = \<lparr>items = p @ a # b # r, current_row = int (length p) + 1\<rparr>"
    using xs p ci by simp
  have "move_up lw = \<lparr>items = p @ b # a # r, current_row = int (length p)\<rparr>"
    by (subst lw) (rule move_up_at)
  then show ?thesis
    using True ci p xs by (simp add: count_lw_def nat_add_distrib nth_append)
qed


lemma move_up_out_of_range:
  "count_lw lw \<le> current_row lw \<Longrightarrow> items (move_up lw) = items lw"
  by (simp add: move_up_def currentRow_def takeItem_def insertItem_def Let_def)

lemma move_down_negative:
  "current_row lw < - 1 \<Longrightarrow> move_down lw = lw\<lparr>current_row := - 1\<rparr>"
  by (simp add: move_down_def currentRow_def count_lw_def takeItem_def insertItem_def
       setCurrentRow_def Let_def)

lemma move_round_trip:
  assumes "length (items lw) \<le> 1 \<or> current_row lw \<noteq> count_lw lw - 1"
  shows "items (move_up (move_down lw)) = items lw"
proof -
  define c where "c = current_row lw"
  consider (neg) "c < - 1" | (none) "c = - 1" | (mid) "0 \<le> c" "c < count_lw lw - 1"
    | (last) "0 \<le> c" "c = count_lw lw - 1" | (out) "count_lw lw \<le> c"
    by linarith
  then show ?thesis
  proof cases
    case neg
    then show ?thesis
      by (simp add: c_def move_down_negative move_up_boundary)
  next
    case none
    then show ?thesis
      by (simp add: c_def move_down_boundary move_up_boundary)
  next
    case mid
    define i where "i = nat c"
    have ci: "c = int i" using mid by (simp add: i_def)
    have i: "Suc i < length (items lw)" using mid ci by (simp add: count_lw_def)
    obtain p a b r where xs: "items lw = p @ a # b # r" and p: "length p = i"
      using split_at_two[OF i] by blast
    have lw: "lw = \<lparr>items = p @ a # b # r, current_row = int (length p)\<rparr>"
      using xs p ci by (simp add: c_def)
    have "move_up (move_down \<lparr>items = p @ a # b # r, current_row = int (length p)\<rparr>) =
        \<lparr>items = p @ a # b # r, current_row = int (length p)\<rparr>"
      unfolding move_down_at move_up_at ..
    then show ?thesis
      unfolding lw by simp
  next
    case last
    with assms have "length (items lw) \<le> 1" by (simp add: c_def)
    with last have "c \<le> 0" by (simp add: count_lw_def)
    with last show ?thesis
      by (simp add: c_def move_down_boundary move_up_boundary)
  next
    case out
    then show ?thesis
      by (simp add: c_def move_down_boundary move_up_out_of_range)
  qed
qed

text \<open>
  Claim C6, as the code has it. The program moves the current entry by one row:
  \<open>move_up\<close> is a move by \<open>-1\<close>, \<open>move_down\<close> a move by \<open>+1\<close>. Neither changes the
  entries as a multiset. For a current entry, its new row is the old row minus or plus
  one, clamped to \<open>0..count - 1\<close>, and the entry itself sits there; at the
  respective boundary the list widget is left as it was. \<open>move_down\<close> followed by
  \<open>move_up\<close> restores the order whenever the current row is not the last one (or the
  list has at most one entry).
\<close>

theorem move_keeps_entries_and_clamps:
  "mset (items (move_up lw)) = mset (items lw)
   \<and> mset (items (move_down lw)) = mset (items lw)
   \<and> (0 \<le> current_row lw \<and> current_row lw < count_lw lw \<longrightarrow>
        current_row (move_up lw) = max 0 (current_row lw - 1)
        \<and> items (move_up lw) ! nat (current_row (move_up lw)) = items lw ! nat (current_row lw)
        \<and> current_row (move_down lw) = min (count_lw lw - 1) (current_row lw + 1)
        \<and> items (move_down lw) ! nat (current_row (move_down lw)) = items lw ! nat (current_row lw))
   \<and> (current_row lw = 0 \<longrightarrow> move_up lw = lw)
   \<and> (current_row lw = count_lw lw - 1 \<longrightarrow> move_down lw = lw)
   \<and> (length (items lw) \<le> 1 \<or> current_row lw \<noteq> count_lw lw - 1 \<longrightarrow>
        items (move_up (move_down lw)) = items lw)"
proof (intro conjI impI)
  show "mset (items (move_up lw)) = mset (items lw)" by (rule move_up_mset)
  show "mset (items (move_down lw)) = mset (items lw)" by (rule move_down_mset)
next
  assume "0 \<le> current_row lw \<and> current_row lw < count_lw lw"
  then have r: "0 \<le> current_row lw" "current_row lw < count_lw lw" by simp_all
  from move_up_position[OF r]
  show "current_row (move_up lw) = max 0 (current_row lw - 1)"
    and "items (move_up lw) ! nat (current_row (move_up lw)) = items lw ! nat (current_row lw)"
    by blast+
  from move_down_position[OF r]
  show "current_row (move_down lw) = min (count_lw lw - 1) (current_row lw + 1)"
    and "items (move_down lw) ! nat (current_row (move_down lw)) = items lw ! nat (current_row lw)"
    by blast+
next
  assume "current_row lw = 0"
  then show "move_up lw = lw" by (simp add: move_up_boundary)
next
  assume "current_row lw = count_lw lw - 1"
  then show "move_down lw = lw" by (simp add: move_down_boundary)
next
  assume "length (items lw) \<le> 1 \<or> current_row lw \<noteq> count_lw lw - 1"
  then show "items (move_up (move_down lw)) = items lw" by (rule move_round_trip)
qed

theorem move_keeps_entries_and_clamps_witness:
  "(0::int) \<le> 1 \<and> (1::int) < count_lw \<lparr>items = [10::nat, 20, 30], current_row = 1\<rparr>
   \<and> (1::int) \<noteq> count_lw \<lparr>items = [10::nat, 20, 30], current_row = 1\<rparr> - 1
   \<and> current_row (move_up \<lparr>items = [10::nat, 20, 30], current_row = 1\<rparr>) = 0
   \<and> current_row (move_down \<lparr>items = [10::nat, 20, 30], current_row = 1\<rparr>) = 2
   \<and> items (move_up (move_down \<lparr>items = [10::nat, 20, 30], current_row = 1\<rparr>)) = [10, 20, 30]
   \<and> move_up \<lparr>items = [10::nat, 20, 30], current_row = 0\<rparr>
       = \<lparr>items = [10, 20, 30], current_row = 0\<rparr>
   \<and> move_down \<lparr>items = [10::nat, 20, 30], current_row = 2\<rparr>
       = \<lparr>items = [10, 20, 30], current_row = 2\<rparr>"
  using move_keeps_entries_and_clamps[of "\<lparr>items = [10::nat, 20, 30], current_row = 1\<rparr>"]
    move_keeps_entries_and_clamps[of "\<lparr>items = [10::nat, 20, 30], current_row = 0\<rparr>"]
    move_keeps_entries_and_clamps[of "\<lparr>items = [10::nat, 20, 30], current_row = 2\<rparr>"]
  by (simp add: count_lw_def)

text \<open>
  Claim C6 as the spec states it fails at the last row: there \<open>move_down\<close> is clamped
  to a no-op, and the \<open>move_up\<close> that follows does move the entry.
\<close>

theorem move_round_trip_last_row_counterexample:
  "items (move_up (move_down \<lparr>items = [10::nat, 20], current_row = 1\<rparr>)) = [20, 10]
   \<and> items (move_up (move_down \<lparr>items = [10::nat, 20], current_row = 1\<rparr>))
       \<noteq> items \<lparr>items = [10::nat, 20], current_row = 1\<rparr>"
  by (simp add: move_up_def move_down_def currentRow_def count_lw_def takeItem_def
       insertItem_def setCurrentRow_def row_after_take_def Let_def)

text \<open>
  Claim C10: with no current row (\<open>-1\<close>) both operations leave the sequence of
  entries unchanged; so does \<open>move_up\<close> on the first row and \<open>move_down\<close> on the last.
\<close>

theorem move_noop_without_row_or_at_boundary:
  "(current_row lw = - 1 \<longrightarrow> items (move_up lw) = items lw \<and> items (move_down lw) = items lw)
   \<and> (current_row lw = 0 \<longrightarrow> items (move_up lw) = items lw)
   \<and> (current_row lw = count_lw lw - 1 \<longrightarrow> items (move_down lw) = items lw)"
  by (auto simp add: move_up_def move_down_def currentRow_def)

theorem move_noop_without_row_or_at_boundary_witness:
  "items (move_up \<lparr>items = [10::nat, 20], current_row = - 1\<rparr>) = [10, 20]
   \<and> items (move_down \<lparr>items = [10::nat, 20], current_row = - 1\<rparr>) = [10, 20]
   \<and> items (move_up \<lparr>items = [10::nat, 20], current_row = 0\<rparr>) = [10, 20]
   \<and> (1::int) = count_lw \<lparr>items = [10::nat, 20], current_row = 1\<rparr> - 1
   \<and> items (move_down \<lparr>items = [10::nat, 20], current_row = 1\<rparr>) = [10, 20]"
  using move_noop_without_row_or_at_boundary[of "\<lparr>items = [10::nat, 20], current_row = - 1\<rparr>"]
    move_noop_without_row_or_at_boundary[of "\<lparr>items = [10::nat, 20], current_row = 0\<rparr>"]
    move_noop_without_row_or_at_boundary[of "\<lparr>items = [10::nat, 20], current_row = 1\<rparr>"]
  by (simp add: count_lw_def)

subsection \<open>The export\<close>

lemma draw_text_data_exn: "snd (draw_text_data lib td can) = draw_exn lib td"
  by (simp add: draw_text_data_def draw_exn_def Let_def split: option.splits prod.splits)

lemma draw_text_data_ops:
  "c_ops (fst (draw_text_data lib td can)) =
     c_ops can @ (if draw_exn lib td = None then [drawn_of td] else [])"
  by (simp add: draw_text_data_def draw_exn_def drawn_of_def Let_def
      split: option.splits prod.splits)

lemma draw_text_data_pagesize:
  "pagesize (fst (draw_text_data lib td can)) = pagesize can"
  by (simp add: draw_text_data_def Let_def split: option.splits prod.splits)

lemma draw_direct_texts_ops:
  "c_ops (fst (draw_direct_texts lib tds (can, out))) =
     c_ops can @ map drawn_of (filter (\<lambda>td. draw_exn lib td = None) tds)"
proof (induction tds arbitrary: can out)
  case Nil
  then show ?case by simp
next
  case (Cons td tds)
  obtain can1 r where d: "draw_text_data lib td can = (can1, r)" by (cases "draw_text_data lib td can")
  have r: "r = draw_exn lib td" using draw_text_data_exn[of lib td can] d by simp
  have ops: "c_ops can1 = c_ops can @ (if draw_exn lib td = None then [drawn_of td] else [])"
    using draw_text_data_ops[of lib td can] d by simp
  show ?case
    by (cases r) (use d r ops Cons.IH in \<open>simp_all\<close>)
qed

lemma draw_direct_texts_messages:
  "snd (draw_direct_texts lib tds (can, out)) =
     out @ map ErrorDrawing (List.map_filter (draw_exn lib) tds)"
proof (induction tds arbitrary: can out)
  case Nil
  then show ?case by (simp add: List.map_filter_simps)
next
  case (Cons td tds)
  obtain can1 r where d: "draw_text_data lib td can = (can1, r)" by (cases "draw_text_data lib td can")
  have r: "r = draw_exn lib td" using draw_text_data_exn[of lib td can] d by simp
  show ?case
    by (cases r) (use d r Cons.IH in \<open>simp_all add: List.map_filter_simps\<close>)
qed

lemma draw_direct_texts_canvas_any:
  "fst (draw_direct_texts lib tds (can, out)) = fst (draw_direct_texts lib tds (can, out'))"
proof (induction tds arbitrary: can out out')
  case Nil
  then show ?case by simp
next
  case (Cons td tds)
  obtain can1 r where d: "draw_text_data lib td can = (can1, r)" by (cases "draw_text_data lib td can")
  show ?case
  proof (cases r)
    case None
    with d show ?thesis by (simp add: Cons.IH[of can1 out out'])
  next
    case (Some e)
    with d show ?thesis
      by (simp add: Cons.IH[of can1 "out @ [ErrorDrawing e]" "out' @ [ErrorDrawing e]"])
  qed
qed

lemma draw_direct_texts_canvas:
  "fst (draw_direct_texts lib tds (can, out)) = fst (draw_direct_texts lib tds (can, []))"
  by (rule draw_direct_texts_canvas_any)

lemmas ex_defs = example_lib_def example_reader_def example_setFont_def never_raises1_def
  never_raises2_def never_raises3_def letter_size_def letter_mediabox_def page_entry_def
  hi_text_def

lemma draw_direct_texts_eq:
  "draw_direct_texts lib tds (Canvas page_size, out) =
     (overlay_canvas lib page_size tds, out @ map ErrorDrawing (List.map_filter (draw_exn lib) tds))"
proof -
  have "fst (draw_direct_texts lib tds (Canvas page_size, out)) = overlay_canvas lib page_size tds"
    unfolding overlay_canvas_def by (rule draw_direct_texts_canvas)
  moreover have "snd (draw_direct_texts lib tds (Canvas page_size, out)) =
      out @ map ErrorDrawing (List.map_filter (draw_exn lib) tds)"
    by (rule draw_direct_texts_messages)
  ultimately show ?thesis by (metis prod.collapse)
qed

lemma add_page_split:
  "add_page lib page st =
     (case add_page_raises lib page of
        Some e \<Rightarrow> Inl (e, printed st @ [])
      | None \<Rightarrow> Inr \<lparr>out_pages = out_pages st @ [page], printed = printed st @ []\<rparr>)"
  by (simp add: add_page_def split: option.split)

lemma export_entry_split:
  "export_entry lib pd st =
     (case entry_raises lib pd of
        Some e \<Rightarrow> Inl (e, printed st @ entry_messages lib pd)
      | None \<Rightarrow> Inr \<lparr>out_pages = out_pages st @ entry_pages lib pd,
                      printed = printed st @ entry_messages lib pd\<rparr>)"
  by (simp add: export_entry_def entry_raises_def entry_pages_def entry_messages_def
      draw_direct_texts_eq add_page_def Let_def
      split: sum.split option.split prod.split)

lemma export_entries_no_raise:
  assumes "\<forall>pd\<in>set es. entry_raises lib pd = None"
  shows "export_entries lib es st =
     Inr \<lparr>out_pages = out_pages st @ concat (map (entry_pages lib) es),
          printed = printed st @ concat (map (entry_messages lib) es)\<rparr>"
  using assms
proof (induction es arbitrary: st)
  case Nil
  then show ?case by simp
next
  case (Cons pd es)
  then show ?case by (simp add: export_entry_split)
qed

lemma export_entries_raise:
  assumes "\<forall>q\<in>set es1. entry_raises lib q = None" and "entry_raises lib pd = Some e"
  shows "export_entries lib (es1 @ pd # es2) st =
     Inl (e, printed st @ concat (map (entry_messages lib) es1) @ entry_messages lib pd)"
  using assms
proof (induction es1 arbitrary: st)
  case Nil
  then show ?case by (simp add: export_entry_split)
next
  case (Cons q es1)
  then show ?case by (simp add: export_entry_split)
qed

lemma export_entries_some_raise:
  assumes "\<exists>pd\<in>set es. entry_raises lib pd \<noteq> None"
  shows "\<exists>es1 pd es2 e. es = es1 @ pd # es2 \<and> (\<forall>q\<in>set es1. entry_raises lib q = None)
     \<and> entry_raises lib pd = Some e"
proof -
  from assms have "\<exists>pd\<in>set es. \<not> entry_raises lib pd = None" by simp
  then obtain es1 pd es2 where "es = es1 @ pd # es2" "\<not> entry_raises lib pd = None"
      "\<forall>q\<in>set es1. \<not> \<not> entry_raises lib q = None"
    using split_list_first_prop[of es "\<lambda>pd. \<not> entry_raises lib pd = None"] by blast
  then show ?thesis by auto
qed

lemma entry_unreadable:
  assumes "read_src_page lib pd = Inl e"
  shows "entry_raises lib pd = None" and "entry_pages lib pd = []"
    and "entry_messages lib pd = [ErrorReading (pdf_path pd) (page_number pd + 1) e]"
  using assms by (simp_all add: entry_raises_def entry_pages_def entry_messages_def export_entry_def)

lemma export_entries_unreadable:
  assumes "read_src_page lib pd = Inl e"
  shows "export_entries lib (pd # es) st =
     export_entries lib es
       (st\<lparr>printed := printed st @ [ErrorReading (pdf_path pd) (page_number pd + 1) e]\<rparr>)"
  using assms by (simp add: export_entry_def)

lemma merge_overlay_content: "content (fst (merge_overlay lib can pg)) = content pg"
  by (simp add: merge_overlay_def split: option.splits)

lemma map_content_entry_pages:
  assumes "entry_raises lib pd = None"
  shows "map content (entry_pages lib pd) = (case readable_page lib pd of None \<Rightarrow> [] | Some p \<Rightarrow> [p])"
proof (cases "read_src_page lib pd")
  case (Inl e)
  then show ?thesis by (simp add: entry_unreadable readable_page_def)
next
  case (Inr p)
  have c: "\<And>can page r. merge_overlay lib can \<lparr>content = p, layer = None\<rparr> = (page, r)
      \<Longrightarrow> content page = p"
    using merge_overlay_content[of lib _ "\<lparr>content = p, layer = None\<rparr>"]
    by (metis fst_conv pdf_page.select_convs(1))
  show ?thesis
    using assms Inr
    by (auto simp add: entry_raises_def entry_pages_def readable_page_def export_entry_def
        draw_direct_texts_eq add_page_def Let_def dest: c
        split: sum.splits option.splits prod.splits if_splits)
qed

lemma map_content_concat_entry_pages:
  assumes "\<forall>pd\<in>set es. entry_raises lib pd = None"
  shows "map content (concat (map (entry_pages lib) es)) = List.map_filter (readable_page lib) es"
  using assms
proof (induction es)
  case Nil
  then show ?case by (simp add: List.map_filter_simps)
next
  case (Cons pd es)
  then show ?case
    by (cases "readable_page lib pd") (simp_all add: map_content_entry_pages List.map_filter_simps)
qed

lemma entry_messages_no_end: "m \<in> set (entry_messages lib pd) \<Longrightarrow> \<not> is_end_message m"
  by (auto simp add: entry_messages_def export_entry_def draw_direct_texts_eq add_page_def Let_def
      split: sum.splits option.splits prod.splits if_splits)

lemma outcome_of_no_end:
  assumes "\<forall>m\<in>set ms. \<not> is_end_message m"
  shows "outcome_of ms = Unfinished"
  using assms
proof (induction ms)
  case Nil
  then show ?case by simp
next
  case (Cons m ms)
  then show ?case by (cases ms; cases m) simp_all
qed

lemma outcome_of_snoc:
  "outcome_of (ms @ [Exported path]) = Completed"
  "outcome_of (ms @ [ErrorExporting e]) = Failed"
proof -
  have "outcome_of (ms @ [Exported path]) = Completed \<and> outcome_of (ms @ [ErrorExporting e]) = Failed"
  proof (induction ms)
    case Nil
    then show ?case by simp
  next
    case (Cons m ms)
    then show ?case by (cases ms; cases m) simp_all
  qed
  then show "outcome_of (ms @ [Exported path]) = Completed"
    "outcome_of (ms @ [ErrorExporting e]) = Failed" by simp_all
qed

lemma export_pdf_no_raise:
  assumes "export_path \<noteq> []" and "PdfWriter_raises lib = None"
    and "\<forall>pd\<in>set (map data (items lw)). entry_raises lib pd = None"
  shows "export_pdf lib export_path lw =
     (case write_raises lib export_path (concat (map (entry_pages lib) (map data (items lw)))) of
        None \<Rightarrow> \<lparr>messages = concat (map (entry_messages lib) (map data (items lw))) @ [Exported export_path],
                  written = Some (export_path, concat (map (entry_pages lib) (map data (items lw)))),
                  raised = None\<rparr>
      | Some e \<Rightarrow> \<lparr>messages = concat (map (entry_messages lib) (map data (items lw))) @ [ErrorExporting e],
                  written = None, raised = None\<rparr>)"
  using assms(1,2) export_entries_no_raise[OF assms(3), of "\<lparr>out_pages = [], printed = []\<rparr>"]
  by (simp add: export_pdf_def split: option.split del: map_map)

lemma export_pdf_raise:
  assumes "export_path \<noteq> []"
    and "PdfWriter_raises lib \<noteq> None \<or> (\<exists>pd\<in>set (map data (items lw)). entry_raises lib pd \<noteq> None)"
  shows "raised (export_pdf lib export_path lw) \<noteq> None
     \<and> written (export_pdf lib export_path lw) = None
     \<and> outcome_of (messages (export_pdf lib export_path lw)) = Unfinished"
proof (cases "PdfWriter_raises lib")
  case (Some e)
  with assms(1) show ?thesis by (simp add: export_pdf_def)
next
  case None
  with assms(2) have "\<exists>pd\<in>set (map data (items lw)). entry_raises lib pd \<noteq> None" by simp
  from export_entries_some_raise[OF this] obtain es1 pd es2 e where
    es: "map data (items lw) = es1 @ pd # es2" "\<forall>q\<in>set es1. entry_raises lib q = None"
      "entry_raises lib pd = Some e" by blast
  have r: "export_entries lib (map data (items lw)) \<lparr>out_pages = [], printed = []\<rparr> =
      Inl (e, concat (map (entry_messages lib) es1) @ entry_messages lib pd)"
    unfolding es(1) using export_entries_raise[OF es(2,3), of es2 "\<lparr>out_pages = [], printed = []\<rparr>"]
    by simp
  have "\<forall>m\<in>set (concat (map (entry_messages lib) es1) @ entry_messages lib pd). \<not> is_end_message m"
    by (auto dest: entry_messages_no_end)
  then have "outcome_of (concat (map (entry_messages lib) es1) @ entry_messages lib pd) = Unfinished"
    by (rule outcome_of_no_end)
  with None assms(1) r show ?thesis
    by (simp add: export_pdf_def del: map_map)
qed

text \<open>
  Claim C1. An entry whose source cannot be opened or parsed, or whose page number is
  not a page of it, raises nothing that is left uncaught, adds no page and prints one
  \<open>ErrorReading\<close> message; the loop goes on with the entries after it exactly as it
  would from the same state with that message printed. In a run in which no round is
  left by an uncaught exception, the pages of the output are what the entries add, one
  after the other: their contents are the pages of the readable entries, in order.
  When moreover creating the writer and the final write do not raise, the run ends
  with the \<open>Exported\<close> message and these pages are written.
\<close>

theorem export_skips_unreadable_entries:
  "(read_src_page lib pd = Inl e \<longrightarrow>
      entry_raises lib pd = None
      \<and> entry_pages lib pd = []
      \<and> entry_messages lib pd = [ErrorReading (pdf_path pd) (page_number pd + 1) e]
      \<and> export_entries lib (pd # es) st =
          export_entries lib es
            (st\<lparr>printed := printed st @ [ErrorReading (pdf_path pd) (page_number pd + 1) e]\<rparr>))
   \<and> ((\<forall>q\<in>set es. entry_raises lib q = None) \<longrightarrow>
        export_entries lib es st =
          Inr \<lparr>out_pages = out_pages st @ concat (map (entry_pages lib) es),
               printed = printed st @ concat (map (entry_messages lib) es)\<rparr>
        \<and> map content (concat (map (entry_pages lib) es)) = List.map_filter (readable_page lib) es)
   \<and> (export_path \<noteq> [] \<and> PdfWriter_raises lib = None
        \<and> (\<forall>q\<in>set (map data (items lw)). entry_raises lib q = None)
        \<and> write_raises lib export_path (concat (map (entry_pages lib) (map data (items lw)))) = None \<longrightarrow>
        export_pdf lib export_path lw =
          \<lparr>messages = concat (map (entry_messages lib) (map data (items lw))) @ [Exported export_path],
           written = Some (export_path, concat (map (entry_pages lib) (map data (items lw)))),
           raised = None\<rparr>)"
proof (intro conjI impI)
  assume r: "read_src_page lib pd = Inl e"
  then show "entry_raises lib pd = None" and "entry_pages lib pd = []"
    and "entry_messages lib pd = [ErrorReading (pdf_path pd) (page_number pd + 1) e]"
    by (rule entry_unreadable)+
  from r show "export_entries lib (pd # es) st =
          export_entries lib es
            (st\<lparr>printed := printed st @ [ErrorReading (pdf_path pd) (page_number pd + 1) e]\<rparr>)"
    by (rule export_entries_unreadable)
next
  assume n: "\<forall>q\<in>set es. entry_raises lib q = None"
  then show "export_entries lib es st =
          Inr \<lparr>out_pages = out_pages st @ concat (map (entry_pages lib) es),
               printed = printed st @ concat (map (entry_messages lib) es)\<rparr>"
    by (rule export_entries_no_raise)
  from n show "map content (concat (map (entry_pages lib) es)) = List.map_filter (readable_page lib) es"
    by (rule map_content_concat_entry_pages)
next
  assume a: "export_path \<noteq> [] \<and> PdfWriter_raises lib = None
        \<and> (\<forall>q\<in>set (map data (items lw)). entry_raises lib q = None)
        \<and> write_raises lib export_path (concat (map (entry_pages lib) (map data (items lw)))) = None"
  then have "export_path \<noteq> []" "PdfWriter_raises lib = None"
      "\<forall>q\<in>set (map data (items lw)). entry_raises lib q = None" by blast+
  from export_pdf_no_raise[OF this] a
  show "export_pdf lib export_path lw =
          \<lparr>messages = concat (map (entry_messages lib) (map data (items lw))) @ [Exported export_path],
           written = Some (export_path, concat (map (entry_pages lib) (map data (items lw)))),
           raised = None\<rparr>"
    by simp
qed

theorem export_skips_unreadable_entries_witness:
  "read_src_page example_lib (data (page_entry ''gone.pdf'' 0 [])) = Inl (LibraryError ''FileNotFoundError'')
   \<and> ''out.pdf'' \<noteq> []
   \<and> PdfWriter_raises example_lib = None
   \<and> entry_raises example_lib (data (page_entry ''a.pdf'' 1 [])) = None
   \<and> entry_raises example_lib (data (page_entry ''gone.pdf'' 0 [])) = None
   \<and> entry_raises example_lib (data (page_entry ''b.pdf'' 0 [])) = None
   \<and> export_pdf example_lib ''out.pdf''
        \<lparr>items = [page_entry ''a.pdf'' 1 [], page_entry ''gone.pdf'' 0 [], page_entry ''b.pdf'' 0 []],
         current_row = - 1\<rparr> =
      \<lparr>messages = [ErrorReading ''gone.pdf'' 1 (LibraryError ''FileNotFoundError''), Exported ''out.pdf''],
       written = Some (''out.pdf'', [\<lparr>content = 2, layer = None\<rparr>, \<lparr>content = 3, layer = None\<rparr>]),
       raised = None\<rparr>"
  using export_skips_unreadable_entries[of example_lib "data (page_entry ''gone.pdf'' 0 [])"
      "LibraryError ''FileNotFoundError''" "[]" "\<lparr>out_pages = [], printed = []\<rparr>" "''out.pdf''"
      "\<lparr>items = [page_entry ''a.pdf'' 1 [], page_entry ''gone.pdf'' 0 [], page_entry ''b.pdf'' 0 []],
         current_row = - 1\<rparr>"]
  by (simp add: ex_defs read_src_page_def entry_raises_def entry_pages_def entry_messages_def
      export_entry_def add_page_def)

text \<open>
  Claim C2, as the code has it. The program has no test on the number of pages added.
  A run whose save dialog was not cancelled and which reaches the final write (no call
  outside a \<^verbatim>\<open>try\<close> raises) ends in \<open>Failed\<close> exactly when the write raises, and in
  \<open>Completed\<close> exactly when it does not, whatever was printed before and however many
  pages were added: with no entries, or with entries none of which could be read, and
  a write that goes through, the run is \<open>Completed\<close> and an output without pages is
  written. A run that an uncaught exception leaves before the write prints neither end
  message and writes nothing.
\<close>

theorem export_fails_only_when_write_raises:
  "export_path \<noteq> [] \<longrightarrow>
     (PdfWriter_raises lib = None \<and> (\<forall>pd\<in>set (map data (items lw)). entry_raises lib pd = None) \<longrightarrow>
        raised (export_pdf lib export_path lw) = None
        \<and> (outcome_of (messages (export_pdf lib export_path lw)) = Failed \<longleftrightarrow>
             write_raises lib export_path (concat (map (entry_pages lib) (map data (items lw)))) \<noteq> None)
        \<and> (outcome_of (messages (export_pdf lib export_path lw)) = Completed \<longleftrightarrow>
             write_raises lib export_path (concat (map (entry_pages lib) (map data (items lw)))) = None)
        \<and> (write_raises lib export_path (concat (map (entry_pages lib) (map data (items lw)))) = None \<longrightarrow>
             written (export_pdf lib export_path lw) =
               Some (export_path, concat (map (entry_pages lib) (map data (items lw)))))
        \<and> (items lw = [] \<and> write_raises lib export_path [] = None \<longrightarrow>
             outcome_of (messages (export_pdf lib export_path lw)) = Completed
             \<and> written (export_pdf lib export_path lw) = Some (export_path, [])))
     \<and> (PdfWriter_raises lib \<noteq> None
          \<or> (\<exists>pd\<in>set (map data (items lw)). entry_raises lib pd \<noteq> None) \<longrightarrow>
        raised (export_pdf lib export_path lw) \<noteq> None
        \<and> written (export_pdf lib export_path lw) = None
        \<and> outcome_of (messages (export_pdf lib export_path lw)) = Unfinished)"
proof (intro impI conjI)
  assume p: "export_path \<noteq> []"
  assume "PdfWriter_raises lib \<noteq> None
          \<or> (\<exists>pd\<in>set (map data (items lw)). entry_raises lib pd \<noteq> None)"
  from export_pdf_raise[OF p this]
  show "raised (export_pdf lib export_path lw) \<noteq> None"
    and "written (export_pdf lib export_path lw) = None"
    and "outcome_of (messages (export_pdf lib export_path lw)) = Unfinished"
    by blast+
next
  assume p: "export_path \<noteq> []"
  assume "PdfWriter_raises lib = None \<and> (\<forall>pd\<in>set (map data (items lw)). entry_raises lib pd = None)"
  then have h: "PdfWriter_raises lib = None" "\<forall>pd\<in>set (map data (items lw)). entry_raises lib pd = None"
    by blast+
  note r = export_pdf_no_raise[OF p h]
  show "raised (export_pdf lib export_path lw) = None"
    unfolding r by (simp split: option.split del: map_map)
  show "outcome_of (messages (export_pdf lib export_path lw)) = Failed \<longleftrightarrow>
             write_raises lib export_path (concat (map (entry_pages lib) (map data (items lw)))) \<noteq> None"
    unfolding r by (auto simp add: outcome_of_snoc split: option.split simp del: map_map)
  show "outcome_of (messages (export_pdf lib export_path lw)) = Completed \<longleftrightarrow>
             write_raises lib export_path (concat (map (entry_pages lib) (map data (items lw)))) = None"
    unfolding r by (auto simp add: outcome_of_snoc split: option.split simp del: map_map)
  {
    assume "write_raises lib export_path (concat (map (entry_pages lib) (map data (items lw)))) = None"
    then show "written (export_pdf lib export_path lw) =
               Some (export_path, concat (map (entry_pages lib) (map data (items lw))))"
      unfolding r by (simp del: map_map)
  }
  {
    assume e: "items lw = [] \<and> write_raises lib export_path [] = None"
    then show "outcome_of (messages (export_pdf lib export_path lw)) = Completed"
      and "written (export_pdf lib export_path lw) = Some (export_path, [])"
      unfolding r by (simp_all add: outcome_of_snoc)
  }
qed

theorem export_fails_only_when_write_raises_witness:
  "''out.pdf'' \<noteq> []
   \<and> PdfWriter_raises example_lib = None
   \<and> entry_raises example_lib (data (page_entry ''gone.pdf'' 0 [])) = None
   \<and> write_raises example_lib ''out.pdf'' [] = None
   \<and> export_pdf example_lib ''out.pdf''
        \<lparr>items = [page_entry ''gone.pdf'' 0 []], current_row = 0\<rparr> =
      \<lparr>messages = [ErrorReading ''gone.pdf'' 1 (LibraryError ''FileNotFoundError''), Exported ''out.pdf''],
       written = Some (''out.pdf'', []), raised = None\<rparr>
   \<and> outcome_of (messages (export_pdf example_lib ''out.pdf''
        \<lparr>items = [page_entry ''gone.pdf'' 0 []], current_row = 0\<rparr>)) = Completed
   \<and> items \<lparr>items = ([] :: unit QListWidgetItem list), current_row = - 1\<rparr> = []
   \<and> messages (export_pdf example_lib ''out.pdf''
        \<lparr>items = ([] :: unit QListWidgetItem list), current_row = - 1\<rparr>) = [Exported ''out.pdf'']
   \<and> entry_raises example_lib_no_getWidth (data (page_entry ''a.pdf'' 0 [hi_text ''Helvetica'']))
        = Some (LibraryError ''DeprecationError'')
   \<and> export_pdf example_lib_no_getWidth ''out.pdf''
        \<lparr>items = [page_entry ''gone.pdf'' 0 [], page_entry ''a.pdf'' 0 [hi_text ''Helvetica''],
                  page_entry ''b.pdf'' 0 []],
         current_row = 0\<rparr> =
      \<lparr>messages = [ErrorReading ''gone.pdf'' 1 (LibraryError ''FileNotFoundError'')],
       written = None, raised = Some (LibraryError ''DeprecationError'')\<rparr>
   \<and> outcome_of (messages (export_pdf example_lib_no_getWidth ''out.pdf''
        \<lparr>items = [page_entry ''gone.pdf'' 0 [], page_entry ''a.pdf'' 0 [hi_text ''Helvetica''],
                  page_entry ''b.pdf'' 0 []],
         current_row = 0\<rparr>)) = Unfinished"
  using export_fails_only_when_write_raises[of "''out.pdf''" example_lib
      "\<lparr>items = [page_entry ''gone.pdf'' 0 []], current_row = 0\<rparr>"]
    export_fails_only_when_write_raises[of "''out.pdf''" example_lib
      "\<lparr>items = ([] :: unit QListWidgetItem list), current_row = - 1\<rparr>"]
    export_fails_only_when_write_raises[of "''out.pdf''" example_lib_no_getWidth
      "\<lparr>items = [page_entry ''gone.pdf'' 0 [], page_entry ''a.pdf'' 0 [hi_text ''Helvetica''],
                  page_entry ''b.pdf'' 0 []],
         current_row = 0\<rparr>"]
  by (simp add: ex_defs example_lib_no_getWidth_def getWidth_raises_def read_src_page_def
      entry_raises_def entry_pages_def export_entry_def add_page_def export_pdf_def)

text \<open>
  Claim C2 as the spec states it fails on an assembly without entries: the export
  prints \<^verbatim>\<open>Exported combined PDF to out.pdf\<close> and writes a document of zero pages.
\<close>

theorem export_of_empty_assembly_counterexample:
  "outcome_of (messages (export_pdf example_lib ''out.pdf''
        \<lparr>items = ([] :: unit QListWidgetItem list), current_row = - 1\<rparr>)) = Completed
   \<and> written (export_pdf example_lib ''out.pdf''
        \<lparr>items = ([] :: unit QListWidgetItem list), current_row = - 1\<rparr>) = Some (''out.pdf'', [])"
  by (simp add: export_pdf_def ex_defs)

lemma overlay_canvas_ops:
  "c_ops (overlay_canvas lib page_size tds) =
     map drawn_of (filter (\<lambda>td. draw_exn lib td = None) tds)"
  by (simp add: overlay_canvas_def draw_direct_texts_ops Canvas_def)

lemma export_entries_middle:
  assumes "\<forall>q\<in>set es1 \<union> set es2. entry_raises lib q = None" and "entry_raises lib pd = None"
  shows "export_entries lib (es1 @ pd # es2) st =
     Inr \<lparr>out_pages = out_pages st @ concat (map (entry_pages lib) es1) @ entry_pages lib pd
            @ concat (map (entry_pages lib) es2),
          printed = printed st @ concat (map (entry_messages lib) es1) @ entry_messages lib pd
            @ concat (map (entry_messages lib) es2)\<rparr>"
proof -
  from assms have "\<forall>q\<in>set (es1 @ pd # es2). entry_raises lib q = None" by auto
  from export_entries_no_raise[OF this] show ?thesis by simp
qed

lemma entry_with_layer:
  assumes "read_src_page lib pd = Inr p" and "direct_texts pd \<noteq> []"
    and "mediabox lib p = Inr page_size" and "Canvas_raises lib page_size = None"
    and "save_raises lib (overlay_canvas lib page_size (direct_texts pd)) = None"
    and "merge_overlay lib (overlay_canvas lib page_size (direct_texts pd))
           \<lparr>content = p, layer = None\<rparr> = (page, r)"
    and "add_page_raises lib page = None"
  shows "entry_raises lib pd = None" and "entry_pages lib pd = [page]"
    and "entry_messages lib pd =
       map ErrorDrawing (List.map_filter (draw_exn lib) (direct_texts pd))
         @ (case r of None \<Rightarrow> [] | Some e \<Rightarrow> [ErrorMerging e])"
  using assms
  by (simp_all add: entry_raises_def entry_pages_def entry_messages_def export_entry_def
      draw_direct_texts_eq add_page_def split: option.split)

lemma merge_overlay_ok:
  assumes "read_packet_raises lib can = None" "merge_page_raises lib (content pg) (c_ops can) = None"
  shows "merge_overlay lib can pg = (pg\<lparr>layer := Some (c_ops can)\<rparr>, None)"
  using assms by (simp add: merge_overlay_def)

lemma merge_overlay_raises:
  assumes "read_packet_raises lib can = Some e
     \<or> (read_packet_raises lib can = None \<and> merge_page_raises lib (content pg) (c_ops can) = Some e)"
  shows "merge_overlay lib can pg = (pg, Some e)"
  using assms by (auto simp add: merge_overlay_def)

text \<open>
  Claim C5. In the loop over the overlays of a page, an overlay whose \<^verbatim>\<open>try\<close> block
  raises prints one \<open>ErrorDrawing\<close> message and draws nothing; every other overlay is
  drawn, in list order, with its own font and colour. Provided the calls outside the
  \<^verbatim>\<open>try\<close> blocks return (the media box, the canvas, saving it, \<^verbatim>\<open>add_page\<close>) and the
  merge does not raise, the round is not left by an exception, the layer merged onto
  the page holds exactly the overlays that did not raise, and the page is added to the
  output. When no round is left by an exception, the entries before and after add
  their pages and messages around it.
\<close>

theorem draw_failure_skips_one_overlay:
  "c_ops (fst (draw_direct_texts lib tds (can, out))) =
      c_ops can @ map drawn_of (filter (\<lambda>td. draw_exn lib td = None) tds)
   \<and> snd (draw_direct_texts lib tds (can, out)) =
      out @ map ErrorDrawing (List.map_filter (draw_exn lib) tds)
   \<and> (read_src_page lib pd = Inr p \<and> direct_texts pd \<noteq> []
        \<and> mediabox lib p = Inr page_size \<and> Canvas_raises lib page_size = None
        \<and> save_raises lib (overlay_canvas lib page_size (direct_texts pd)) = None
        \<and> read_packet_raises lib (overlay_canvas lib page_size (direct_texts pd)) = None
        \<and> merge_page_raises lib p (c_ops (overlay_canvas lib page_size (direct_texts pd))) = None
        \<and> add_page_raises lib
             \<lparr>content = p,
              layer = Some (map drawn_of (filter (\<lambda>td. draw_exn lib td = None) (direct_texts pd)))\<rparr>
            = None \<longrightarrow>
        entry_raises lib pd = None
        \<and> entry_pages lib pd =
          [\<lparr>content = p,
            layer = Some (map drawn_of (filter (\<lambda>td. draw_exn lib td = None) (direct_texts pd)))\<rparr>]
        \<and> entry_messages lib pd =
          map ErrorDrawing (List.map_filter (draw_exn lib) (direct_texts pd)))
   \<and> ((\<forall>q\<in>set es1 \<union> set es2. entry_raises lib q = None) \<and> entry_raises lib pd = None \<longrightarrow>
        export_entries lib (es1 @ pd # es2) st =
          Inr \<lparr>out_pages = out_pages st @ concat (map (entry_pages lib) es1) @ entry_pages lib pd
                 @ concat (map (entry_pages lib) es2),
               printed = printed st @ concat (map (entry_messages lib) es1) @ entry_messages lib pd
                 @ concat (map (entry_messages lib) es2)\<rparr>)"
proof (intro conjI impI)
  show "c_ops (fst (draw_direct_texts lib tds (can, out))) =
      c_ops can @ map drawn_of (filter (\<lambda>td. draw_exn lib td = None) tds)"
    by (rule draw_direct_texts_ops)
  show "snd (draw_direct_texts lib tds (can, out)) =
      out @ map ErrorDrawing (List.map_filter (draw_exn lib) tds)"
    by (rule draw_direct_texts_messages)
next
  assume "(\<forall>q\<in>set es1 \<union> set es2. entry_raises lib q = None) \<and> entry_raises lib pd = None"
  then show "export_entries lib (es1 @ pd # es2) st =
          Inr \<lparr>out_pages = out_pages st @ concat (map (entry_pages lib) es1) @ entry_pages lib pd
                 @ concat (map (entry_pages lib) es2),
               printed = printed st @ concat (map (entry_messages lib) es1) @ entry_messages lib pd
                 @ concat (map (entry_messages lib) es2)\<rparr>"
    by (intro export_entries_middle) blast+
next
  assume a: "read_src_page lib pd = Inr p \<and> direct_texts pd \<noteq> []
        \<and> mediabox lib p = Inr page_size \<and> Canvas_raises lib page_size = None
        \<and> save_raises lib (overlay_canvas lib page_size (direct_texts pd)) = None
        \<and> read_packet_raises lib (overlay_canvas lib page_size (direct_texts pd)) = None
        \<and> merge_page_raises lib p (c_ops (overlay_canvas lib page_size (direct_texts pd))) = None
        \<and> add_page_raises lib
             \<lparr>content = p,
              layer = Some (map drawn_of (filter (\<lambda>td. draw_exn lib td = None) (direct_texts pd)))\<rparr>
            = None"
  then have m: "merge_overlay lib (overlay_canvas lib page_size (direct_texts pd))
        \<lparr>content = p, layer = None\<rparr> =
      (\<lparr>content = p,
        layer = Some (map drawn_of (filter (\<lambda>td. draw_exn lib td = None) (direct_texts pd)))\<rparr>, None)"
    by (simp add: merge_overlay_ok overlay_canvas_ops)
  from a have h: "read_src_page lib pd = Inr p" "direct_texts pd \<noteq> []"
      "mediabox lib p = Inr page_size" "Canvas_raises lib page_size = None"
      "save_raises lib (overlay_canvas lib page_size (direct_texts pd)) = None"
    by blast+
  from a have ap: "add_page_raises lib
             \<lparr>content = p,
              layer = Some (map drawn_of (filter (\<lambda>td. draw_exn lib td = None) (direct_texts pd)))\<rparr>
            = None" by blast
  note e = entry_with_layer[OF h m ap]
  show "entry_raises lib pd = None" by (rule e(1))
  show "entry_pages lib pd =
          [\<lparr>content = p,
            layer = Some (map drawn_of (filter (\<lambda>td. draw_exn lib td = None) (direct_texts pd)))\<rparr>]"
    by (rule e(2))
  show "entry_messages lib pd =
          map ErrorDrawing (List.map_filter (draw_exn lib) (direct_texts pd))"
    using e(3) by simp
qed

text \<open>
  Claim C9. When reading the generated overlay document back or merging it onto the
  page raises, and the calls outside the \<^verbatim>\<open>try\<close> blocks return (the media box, the
  canvas, saving it, \<^verbatim>\<open>add_page\<close>), the page is added to the output as it was read,
  without a layer, and one \<open>ErrorMerging\<close> message is printed after the messages of
  the overlays. When no other round is left by an exception, the page stands at its
  place between the pages of the entries before and after it.
\<close>

theorem merge_failure_keeps_page:
  assumes "read_src_page lib pd = Inr p"
    and "direct_texts pd \<noteq> []"
    and "mediabox lib p = Inr page_size"
    and "Canvas_raises lib page_size = None"
    and "save_raises lib (overlay_canvas lib page_size (direct_texts pd)) = None"
    and "read_packet_raises lib (overlay_canvas lib page_size (direct_texts pd)) = Some e
       \<or> (read_packet_raises lib (overlay_canvas lib page_size (direct_texts pd)) = None
          \<and> merge_page_raises lib p (c_ops (overlay_canvas lib page_size (direct_texts pd))) = Some e)"
    and "add_page_raises lib \<lparr>content = p, layer = None\<rparr> = None"
    and "\<forall>q\<in>set es1 \<union> set es2. entry_raises lib q = None"
  shows "entry_raises lib pd = None
     \<and> entry_pages lib pd = [\<lparr>content = p, layer = None\<rparr>]
     \<and> entry_messages lib pd =
         map ErrorDrawing (List.map_filter (draw_exn lib) (direct_texts pd)) @ [ErrorMerging e]
     \<and> export_entries lib (es1 @ pd # es2) st =
         Inr \<lparr>out_pages = out_pages st @ concat (map (entry_pages lib) es1)
                @ [\<lparr>content = p, layer = None\<rparr>] @ concat (map (entry_pages lib) es2),
              printed = printed st @ concat (map (entry_messages lib) es1)
                @ map ErrorDrawing (List.map_filter (draw_exn lib) (direct_texts pd))
                @ [ErrorMerging e] @ concat (map (entry_messages lib) es2)\<rparr>"
proof -
  have m: "merge_overlay lib (overlay_canvas lib page_size (direct_texts pd))
        \<lparr>content = p, layer = None\<rparr> = (\<lparr>content = p, layer = None\<rparr>, Some e)"
    using assms(6) by (intro merge_overlay_raises) simp
  note en = entry_with_layer[OF assms(1-5) m assms(7)]
  from export_entries_middle[OF assms(8) en(1), of st] en
  show ?thesis by simp
qed

theorem draw_failure_skips_one_overlay_witness:
  "read_src_page example_lib
      (data (page_entry ''a.pdf'' 1 [hi_text ''Helvetica'', hi_text ''Wingdings'', hi_text ''Courier''])) = Inr 2
   \<and> mediabox example_lib 2 = Inr (612, 792)
   \<and> Canvas_raises example_lib (612, 792) = None
   \<and> draw_exn example_lib (hi_text ''Wingdings'') = Some (LibraryError ''KeyError'')
   \<and> entry_raises example_lib
        (data (page_entry ''a.pdf'' 1 [hi_text ''Helvetica'', hi_text ''Wingdings'', hi_text ''Courier''])) = None
   \<and> export_entries example_lib
        [data (page_entry ''a.pdf'' 0 []),
         data (page_entry ''a.pdf'' 1 [hi_text ''Helvetica'', hi_text ''Wingdings'', hi_text ''Courier'']),
         data (page_entry ''b.pdf'' 0 [])]
        \<lparr>out_pages = [], printed = []\<rparr> =
      Inr \<lparr>out_pages =
             [\<lparr>content = 1, layer = None\<rparr>,
              \<lparr>content = 2, layer = Some [drawn_of (hi_text ''Helvetica''), drawn_of (hi_text ''Courier'')]\<rparr>,
              \<lparr>content = 3, layer = None\<rparr>],
           printed = [ErrorDrawing (LibraryError ''KeyError'')]\<rparr>"
  using draw_failure_skips_one_overlay[of example_lib "[]" "Canvas (612, 792)" "[]"
      "data (page_entry ''a.pdf'' 1 [hi_text ''Helvetica'', hi_text ''Wingdings'', hi_text ''Courier''])" 2
      "(612, 792)" "[data (page_entry ''a.pdf'' 0 [])]" "[data (page_entry ''b.pdf'' 0 [])]"
      "\<lparr>out_pages = [], printed = []\<rparr>"]
  by (simp add: export_entry_def read_src_page_def draw_text_data_def draw_exn_def
      drawn_of_def merge_overlay_def Canvas_def Let_def ex_defs entry_pages_def entry_messages_def
      entry_raises_def overlay_canvas_def add_page_def)

theorem merge_failure_keeps_page_witness:
  "read_src_page example_lib_bad_merge (data (page_entry ''a.pdf'' 1 [hi_text ''Helvetica''])) = Inr 2
   \<and> direct_texts (data (page_entry ''a.pdf'' 1 [hi_text ''Helvetica''])) \<noteq> []
   \<and> mediabox example_lib_bad_merge 2 = Inr (612, 792)
   \<and> Canvas_raises example_lib_bad_merge (612, 792) = None
   \<and> save_raises example_lib_bad_merge
        (overlay_canvas example_lib_bad_merge (612, 792) [hi_text ''Helvetica'']) = None
   \<and> read_packet_raises example_lib_bad_merge
        (overlay_canvas example_lib_bad_merge (612, 792) [hi_text ''Helvetica'']) = None
   \<and> merge_page_raises example_lib_bad_merge 2
        (c_ops (overlay_canvas example_lib_bad_merge (612, 792) [hi_text ''Helvetica''])) =
        Some (LibraryError ''merge_page'')
   \<and> add_page_raises example_lib_bad_merge \<lparr>content = 2, layer = None\<rparr> = None
   \<and> entry_raises example_lib_bad_merge (data (page_entry ''a.pdf'' 0 [])) = None
   \<and> entry_raises example_lib_bad_merge (data (page_entry ''b.pdf'' 0 [])) = None
   \<and> export_entries example_lib_bad_merge
        [data (page_entry ''a.pdf'' 0 []), data (page_entry ''a.pdf'' 1 [hi_text ''Helvetica'']),
         data (page_entry ''b.pdf'' 0 [])] \<lparr>out_pages = [], printed = []\<rparr> =
      Inr \<lparr>out_pages =
             [\<lparr>content = 1, layer = None\<rparr>, \<lparr>content = 2, layer = None\<rparr>,
              \<lparr>content = 3, layer = None\<rparr>],
           printed = [ErrorMerging (LibraryError ''merge_page'')]\<rparr>"
proof -
  have r: "read_src_page example_lib_bad_merge (data (page_entry ''a.pdf'' 1 [hi_text ''Helvetica''])) = Inr 2"
    by (simp add: read_src_page_def example_lib_bad_merge_def ex_defs)
  have d: "direct_texts (data (page_entry ''a.pdf'' 1 [hi_text ''Helvetica''])) \<noteq> []"
    by (simp add: page_entry_def)
  have mb: "mediabox example_lib_bad_merge 2 = Inr (612, 792)"
    by (simp add: example_lib_bad_merge_def ex_defs)
  have cv: "Canvas_raises example_lib_bad_merge (612, 792) = None"
    by (simp add: example_lib_bad_merge_def ex_defs)
  have sv: "save_raises example_lib_bad_merge
        (overlay_canvas example_lib_bad_merge (612, 792)
          (direct_texts (data (page_entry ''a.pdf'' 1 [hi_text ''Helvetica''])))) = None"
    by (simp add: example_lib_bad_merge_def ex_defs)
  have mg: "read_packet_raises example_lib_bad_merge
        (overlay_canvas example_lib_bad_merge (612, 792)
          (direct_texts (data (page_entry ''a.pdf'' 1 [hi_text ''Helvetica''])))) =
        Some (LibraryError ''merge_page'')
     \<or> (read_packet_raises example_lib_bad_merge
        (overlay_canvas example_lib_bad_merge (612, 792)
          (direct_texts (data (page_entry ''a.pdf'' 1 [hi_text ''Helvetica''])))) = None
       \<and> merge_page_raises example_lib_bad_merge 2
        (c_ops (overlay_canvas example_lib_bad_merge (612, 792)
          (direct_texts (data (page_entry ''a.pdf'' 1 [hi_text ''Helvetica'']))))) =
        Some (LibraryError ''merge_page''))"
    by (simp add: example_lib_bad_merge_def merge_always_raises_def ex_defs)
  have ap: "add_page_raises example_lib_bad_merge \<lparr>content = 2, layer = None\<rparr> = None"
    by (simp add: example_lib_bad_merge_def ex_defs)
  have others: "\<forall>q\<in>set [data (page_entry ''a.pdf'' 0 [])] \<union> set [data (page_entry ''b.pdf'' 0 [])].
      entry_raises example_lib_bad_merge q = None"
    by (simp add: entry_raises_def export_entry_def read_src_page_def add_page_def
        example_lib_bad_merge_def ex_defs)
  from merge_failure_keeps_page[OF r d mb cv sv mg ap others, of "\<lparr>out_pages = [], printed = []\<rparr>"]
  show ?thesis
    by (simp add: export_entry_def read_src_page_def draw_text_data_def draw_exn_def
      drawn_of_def merge_overlay_def Canvas_def Let_def ex_defs entry_pages_def entry_messages_def
      entry_raises_def overlay_canvas_def add_page_def example_lib_bad_merge_def
      merge_always_raises_def)
qed

subsection \<open>The text editor\<close>

lemma text_items_append: "text_items (xs @ ys) = text_items xs @ text_items ys"
  by (induction xs rule: text_items.induct) simp_all

lemma text_items_rev: "text_items (rev xs) = rev (text_items xs)"
  by (induction xs rule: text_items.induct) (simp_all add: text_items_append)

lemma text_items_clearFocus:
  "text_items (map clearFocus sc) = map (\<lambda>it. it\<lparr>has_focus := False\<rparr>) (text_items sc)"
  by (induction sc rule: text_items.induct) (simp_all add: clearFocus_def)

lemma direct_text_of_focus:
  "direct_text_of zoom h (it\<lparr>has_focus := b\<rparr>) = direct_text_of zoom h it"
  by (simp add: direct_text_of_def split: sum.splits prod.splits)

lemma direct_text_of_nonzero:
  assumes "zoom \<noteq> 0"
  shows "direct_text_of zoom h it =
     Inr \<lparr>dt_text = plain_text it, dt_x = fst (item_pos it) / zoom,
          dt_y = h - snd (item_pos it) / zoom,
          font_family = fst (item_font it), font_size = snd (item_font it),
          color = (real_of_int (fst (default_text_color it)) / 255,
                   real_of_int (fst (snd (default_text_color it))) / 255,
                   real_of_int (snd (snd (default_text_color it))) / 255)\<rparr>"
  using assms by (simp add: direct_text_of_def pdf_x_def pdf_y_def split: prod.splits)

lemma collect_texts_nonzero:
  assumes "zoom \<noteq> 0"
  shows "collect_texts zoom h its texts =
     Inr (texts @ map (\<lambda>it. projr (direct_text_of zoom h it)) (text_items its))"
  using assms
  by (induction zoom h its texts rule: collect_texts.induct)
     (simp_all add: direct_text_of_nonzero)

lemma getDirectTexts_nonzero:
  assumes "direct_zoom d \<noteq> 0"
  shows "snd (getDirectTexts d) =
     Inr (map (\<lambda>it. projr (direct_text_of (direct_zoom d) (pdf_height d) it))
            (rev (text_items (scene d))))"
  using assms
  by (simp add: getDirectTexts_def Let_def collect_texts_nonzero scene_items_def
      text_items_rev text_items_clearFocus rev_map direct_text_of_focus comp_def)

text \<open>
  Claim C3. For a zoom factor above zero the commit of the editor turns the scene
  position \<open>(sx, sy)\<close> of a text item into \<open>x = sx / zoom\<close> and
  \<open>y = pdf_height - sy / zoom\<close>: both divisions return, and every dictionary of the
  result carries these two values for its item, item by item in the order of
  \<^verbatim>\<open>scene.items()\<close>.
\<close>

theorem commit_converts_screen_to_pdf:
  "0 < direct_zoom d \<longrightarrow>
     pdf_x (direct_zoom d) sx = Inr (sx / direct_zoom d)
     \<and> pdf_y (pdf_height d) (direct_zoom d) sy = Inr (pdf_height d - sy / direct_zoom d)
     \<and> (\<exists>tds. snd (getDirectTexts d) = Inr tds
          \<and> map (\<lambda>td. (dt_x td, dt_y td)) tds =
              map (\<lambda>it. (fst (item_pos it) / direct_zoom d,
                          pdf_height d - snd (item_pos it) / direct_zoom d))
                (text_items (scene_items (scene d))))"
proof
  assume z: "0 < direct_zoom d"
  then have nz: "direct_zoom d \<noteq> 0" by simp
  have "map (\<lambda>td. (dt_x td, dt_y td))
          (map (\<lambda>it. projr (direct_text_of (direct_zoom d) (pdf_height d) it))
            (rev (text_items (scene d)))) =
        map (\<lambda>it. (fst (item_pos it) / direct_zoom d,
                    pdf_height d - snd (item_pos it) / direct_zoom d))
          (text_items (scene_items (scene d)))"
    using nz by (simp add: direct_text_of_nonzero scene_items_def text_items_rev comp_def)
  with nz show "pdf_x (direct_zoom d) sx = Inr (sx / direct_zoom d)
     \<and> pdf_y (pdf_height d) (direct_zoom d) sy = Inr (pdf_height d - sy / direct_zoom d)
     \<and> (\<exists>tds. snd (getDirectTexts d) = Inr tds
          \<and> map (\<lambda>td. (dt_x td, dt_y td)) tds =
              map (\<lambda>it. (fst (item_pos it) / direct_zoom d,
                          pdf_height d - snd (item_pos it) / direct_zoom d))
                (text_items (scene_items (scene d))))"
    by (simp add: pdf_x_def pdf_y_def getDirectTexts_nonzero)
qed

lemmas session_defs = example_session_def example_dialog_def add_direct_text_item_def
  new_DirectTextItem_def scene_addItem_def contextMenuEvent_def scene_items_def Let_def


theorem commit_converts_screen_to_pdf_witness:
  "(0::real) < direct_zoom example_session
   \<and> pdf_x (direct_zoom example_session) 50 = Inr 25
   \<and> pdf_y (pdf_height example_session) (direct_zoom example_session) 50 = Inr 767
   \<and> map dt_x (projr (snd (getDirectTexts example_session))) = [25, 25]
   \<and> map dt_y (projr (snd (getDirectTexts example_session))) = [767, 767]"
proof -
  have z: "direct_zoom example_session = 2" "pdf_height example_session = 792"
    by (simp_all add: session_defs)
  have t: "text_items (scene_items (scene example_session)) =
      [\<lparr>item_pos = (50, 50), plain_text = ''Double-click to edit'',
        item_font = (''Helvetica'', 12), default_text_color = (0, 0, 0), has_focus = False\<rparr>,
       \<lparr>item_pos = (50, 50), plain_text = ''Double-click to edit'',
        item_font = (''Courier'', 10), default_text_color = (0, 0, 0), has_focus = False\<rparr>]"
    by (simp add: session_defs)
  from commit_converts_screen_to_pdf[of example_session 50 50]
  obtain tds where tds: "snd (getDirectTexts example_session) = Inr tds"
      "map (\<lambda>td. (dt_x td, dt_y td)) tds = [(25, 767), (25, 767)]"
    unfolding t z by auto
  from tds(2) have "map dt_x tds = [25, 25] \<and> map dt_y tds = [767, 767]"
    by (auto simp add: map_eq_Cons_conv)
  with tds(1) z commit_converts_screen_to_pdf[of example_session 50 50]
  show ?thesis by simp
qed

lemma text_items_add_direct_text_item:
  "text_items (scene (add_direct_text_item d)) =
     text_items (scene d) @ [(new_DirectTextItem ''Double-click to edit'')\<lparr>item_pos := (50, 50)\<rparr>]"
  by (simp add: add_direct_text_item_def scene_addItem_def text_items_append Let_def)

text \<open>
  Claim C4, as the code has it. The commit walks \<^verbatim>\<open>scene.items()\<close>, which lists the
  items from the top of the stacking order down. Items are stacked in the order they
  were added, and \<open>add_direct_text_item\<close> adds the new item last, so the overlays come
  out most recently created first: the reverse of the creation order. The export draws
  the overlays of a page in list order, so a later list entry is painted over an
  earlier one.
\<close>

theorem commit_emits_stacking_order:
  "(direct_zoom d \<noteq> 0 \<longrightarrow>
      snd (getDirectTexts d) =
        Inr (map (\<lambda>it. projr (direct_text_of (direct_zoom d) (pdf_height d) it))
               (rev (text_items (scene d)))))
   \<and> text_items (scene (add_direct_text_item d)) =
       text_items (scene d) @ [(new_DirectTextItem ''Double-click to edit'')\<lparr>item_pos := (50, 50)\<rparr>]
   \<and> c_ops (fst (draw_direct_texts lib tds (Canvas page_size, out))) =
       map drawn_of (filter (\<lambda>td. draw_exn lib td = None) tds)"
  by (simp add: getDirectTexts_nonzero text_items_add_direct_text_item draw_direct_texts_ops
      Canvas_def)

theorem commit_emits_stacking_order_witness:
  "direct_zoom example_session \<noteq> 0
   \<and> map (fst \<circ> item_font) (text_items (scene example_session)) = [''Courier'', ''Helvetica'']
   \<and> map font_family (projr (snd (getDirectTexts example_session))) = [''Helvetica'', ''Courier'']
   \<and> map d_font (c_ops (fst (draw_direct_texts example_lib
        [hi_text ''Helvetica'', hi_text ''Courier''] (Canvas (612, 792), [])))) =
      [(''Helvetica'', 12), (''Courier'', 12)]"
proof -
  have z: "direct_zoom example_session = 2" "pdf_height example_session = 792"
    by (simp_all add: session_defs)
  have t: "text_items (scene example_session) =
      [\<lparr>item_pos = (50, 50), plain_text = ''Double-click to edit'',
        item_font = (''Courier'', 10), default_text_color = (0, 0, 0), has_focus = False\<rparr>,
       \<lparr>item_pos = (50, 50), plain_text = ''Double-click to edit'',
        item_font = (''Helvetica'', 12), default_text_color = (0, 0, 0), has_focus = False\<rparr>]"
    by (simp add: session_defs)
  have ok: "draw_exn example_lib (hi_text ''Helvetica'') = None"
      "draw_exn example_lib (hi_text ''Courier'') = None"
    by (simp_all add: draw_exn_def draw_text_data_def ex_defs Let_def)
  note th = commit_emits_stacking_order[of example_session example_lib
      "[hi_text ''Helvetica'', hi_text ''Courier'']" "(612, 792)" "[]"]
  have nz: "direct_zoom example_session \<noteq> 0" using z by simp
  from th nz have g: "snd (getDirectTexts example_session) =
        Inr (map (\<lambda>it. projr (direct_text_of (direct_zoom example_session)
                (pdf_height example_session) it)) (rev (text_items (scene example_session))))"
    by blast
  have g': "map font_family (projr (snd (getDirectTexts example_session))) = [''Helvetica'', ''Courier'']"
    unfolding g t z by (simp add: direct_text_of_nonzero)
  from th have c: "c_ops (fst (draw_direct_texts example_lib
        [hi_text ''Helvetica'', hi_text ''Courier''] (Canvas (612, 792), []))) =
       map drawn_of (filter (\<lambda>td. draw_exn example_lib td = None)
         [hi_text ''Helvetica'', hi_text ''Courier''])"
    by blast
  have c': "map d_font (c_ops (fst (draw_direct_texts example_lib
        [hi_text ''Helvetica'', hi_text ''Courier''] (Canvas (612, 792), [])))) =
      [(''Helvetica'', 12), (''Courier'', 12)]"
    unfolding c by (simp add: ok) (simp add: drawn_of_def hi_text_def)
  show ?thesis
    using nz g' c' by (simp add: t)
qed

text \<open>
  Claim C4 as the spec states it fails in the example session: the item created first
  is the Courier one, and the commit emits the Helvetica one first.
\<close>

theorem commit_order_counterexample:
  "map (fst \<circ> item_font) (text_items (scene example_session)) = [''Courier'', ''Helvetica'']
   \<and> map font_family (projr (snd (getDirectTexts example_session))) = [''Helvetica'', ''Courier'']"
  by (simp add: session_defs getDirectTexts_def clearFocus_def direct_text_of_def pdf_x_def
      pdf_y_def)

text \<open>
  Claim C8, against \<open>pdf_to_screen\<close> as the spec describes it. For a zoom above zero
  and a page height of at least zero, the commit transform returns a point, and
  \<open>pdf_to_screen\<close> takes that point back to the screen position it came from. Over
  the reals the round trip is exact.
\<close>

theorem pdf_to_screen_inverts_commit_transform:
  "0 < zoom \<and> 0 \<le> h \<longrightarrow>
     (\<exists>px py. pdf_x zoom sx = Inr px \<and> pdf_y h zoom sy = Inr py
        \<and> pdf_to_screen (px, py) zoom h = (sx, sy))"
  by (simp add: pdf_x_def pdf_y_def pdf_to_screen_def)

theorem pdf_to_screen_inverts_commit_transform_witness:
  "(0::real) < 2 \<and> (0::real) \<le> 792
   \<and> pdf_x 2 50 = Inr 25 \<and> pdf_y 792 2 50 = Inr 767
   \<and> pdf_to_screen (25, 767) 2 792 = (50, 50)"
  using pdf_to_screen_inverts_commit_transform[of 2 792 50 50]
  by (simp add: pdf_x_def pdf_y_def pdf_to_screen_def)

subsection \<open>Adding and removing pages\<close>

lemma render_pages_all:
  assumes "list_all2 (\<lambda>pg img. get_pixmap lib pg zoom = Inr img) doc imgs"
  shows "render_pages lib zoom doc acc = Inr (acc @ imgs)"
  using assms
  by (induction doc imgs arbitrary: acc rule: list_all2_induct) simp_all

lemma add_page_items_all:
  assumes "list_all2 (\<lambda>img px. pil2pixmap lib img = Inr px) imgs pxs"
  shows "add_page_items lib path i imgs lw =
     (lw\<lparr>items := items lw @
         map (\<lambda>(i, px). \<lparr>data = \<lparr>pdf_path = path, page_number = i, pixmap = px,
                                       direct_texts = []\<rparr>\<rparr>)
           (enumerate i pxs)\<rparr>, None)"
  using assms
  by (induction imgs pxs arbitrary: i lw rule: list_all2_induct) (simp_all add: addItem_def)

lemma add_pdf_readable:
  assumes "fitz_open lib path = Inr doc"
    and "list_all2 (\<lambda>pg img. get_pixmap lib pg 1 = Inr img) doc images"
    and "list_all2 (\<lambda>img px. pil2pixmap lib img = Inr px) images pixmaps"
  shows "add_pdf lib [path] lw =
     (lw\<lparr>items := items lw @
         map (\<lambda>(i, px). \<lparr>data = \<lparr>pdf_path = path, page_number = i, pixmap = px,
                                       direct_texts = []\<rparr>\<rparr>)
           (enumerate 0 pixmaps)\<rparr>, [])"
proof -
  have c: "convert_pdf_to_images lib path 1 = Inr images"
    using assms(1) render_pages_all[OF assms(2), of "[]"] by (simp add: convert_pdf_to_images_def)
  show ?thesis
    using c add_page_items_all[OF assms(3), of path 0 lw]
    by (simp add: add_pdf_def add_path_def)
qed

lemma items_remove_one:
  assumes "r < length (items lw)"
  shows "items (remove_selected [r] lw) = take r (items lw) @ drop (Suc r) (items lw)"
  using assms by (simp add: remove_selected_def takeItem_def count_lw_def)

text \<open>
  Claim C7. For a source that opens and whose pages all render and convert, \<open>add_pdf\<close>
  with that one path appends one entry per page: page numbers \<open>0\<close> to \<open>n - 1\<close> in
  page order, each with an empty list of overlays, and prints nothing. The entries
  appended do not depend on the list they are appended to: after \<open>remove_selected\<close>
  the list holds what the removal left, followed by the same new entries with empty
  overlays, whatever overlays the removed entries had. Removing the one selected row
  leaves the other entries in their order.
\<close>

theorem add_pdf_appends_one_entry_per_page:
  assumes "fitz_open lib path = Inr doc"
    and "list_all2 (\<lambda>pg img. get_pixmap lib pg 1 = Inr img) doc images"
    and "list_all2 (\<lambda>img px. pil2pixmap lib img = Inr px) images pixmaps"
  shows "length pixmaps = length doc
     \<and> add_pdf lib [path] lw =
        (lw\<lparr>items := items lw @
            map (\<lambda>(i, px). \<lparr>data = \<lparr>pdf_path = path, page_number = i, pixmap = px,
                                          direct_texts = []\<rparr>\<rparr>)
              (enumerate 0 pixmaps)\<rparr>, [])
     \<and> map (\<lambda>it. page_number (data it)) (drop (length (items lw)) (items (fst (add_pdf lib [path] lw))))
         = [0..<length doc]
     \<and> items (fst (add_pdf lib [path] (remove_selected selected_rows lw0))) =
         items (remove_selected selected_rows lw0) @
         map (\<lambda>(i, px). \<lparr>data = \<lparr>pdf_path = path, page_number = i, pixmap = px,
                                       direct_texts = []\<rparr>\<rparr>)
           (enumerate 0 pixmaps)
     \<and> (r < length (items lw0) \<longrightarrow>
          items (remove_selected [r] lw0) = take r (items lw0) @ drop (Suc r) (items lw0))"
proof -
  have len: "length pixmaps = length doc"
    using assms(2,3) by (simp add: list_all2_lengthD)
  note a = add_pdf_readable[OF assms]
  have pn: "map (\<lambda>it. page_number (data it))
         (map (\<lambda>(i, px). \<lparr>data = \<lparr>pdf_path = path, page_number = i, pixmap = px,
                                       direct_texts = []\<rparr>\<rparr>)
           (enumerate 0 pixmaps)) = [0..<length doc]"
  proof -
    have "map (\<lambda>it. page_number (data it))
         (map (\<lambda>(i, px). \<lparr>data = \<lparr>pdf_path = path, page_number = i, pixmap = px,
                                       direct_texts = []\<rparr>\<rparr>)
           (enumerate 0 pixmaps)) = map fst (enumerate 0 pixmaps)"
      by (simp add: comp_def split_beta)
    then show ?thesis by (simp add: len)
  qed
  show ?thesis
    using len pn by (simp add: a items_remove_one)
qed

theorem add_pdf_appends_one_entry_per_page_witness:
  "fitz_open example_raster ''a.pdf'' = Inr [1, 2]
   \<and> get_pixmap example_raster 1 1 = Inr 101 \<and> get_pixmap example_raster 2 1 = Inr 102
   \<and> pil2pixmap example_raster 101 = Inr 101 \<and> pil2pixmap example_raster 102 = Inr 102
   \<and> (0::nat) < length (items
        \<lparr>items = [\<lparr>data = \<lparr>pdf_path = ''a.pdf'', page_number = 0, pixmap = 101 :: nat,
                             direct_texts = [hi_text ''Helvetica'']\<rparr>\<rparr>],
         current_row = 0\<rparr>)
   \<and> items (remove_selected [0]
        \<lparr>items = [\<lparr>data = \<lparr>pdf_path = ''a.pdf'', page_number = 0, pixmap = 101 :: nat,
                             direct_texts = [hi_text ''Helvetica'']\<rparr>\<rparr>],
         current_row = 0\<rparr>) = []
   \<and> items (fst (add_pdf example_raster [''a.pdf'']
        (remove_selected [0]
          \<lparr>items = [\<lparr>data = \<lparr>pdf_path = ''a.pdf'', page_number = 0, pixmap = 101 :: nat,
                               direct_texts = [hi_text ''Helvetica'']\<rparr>\<rparr>],
           current_row = 0\<rparr>))) =
      [\<lparr>data = \<lparr>pdf_path = ''a.pdf'', page_number = 0, pixmap = 101, direct_texts = []\<rparr>\<rparr>,
       \<lparr>data = \<lparr>pdf_path = ''a.pdf'', page_number = 1, pixmap = 102, direct_texts = []\<rparr>\<rparr>]"
proof -
  have h1: "fitz_open example_raster ''a.pdf'' = Inr [1, 2]"
    by (simp add: example_raster_def example_fitz_open_def)
  have h2: "list_all2 (\<lambda>pg img. get_pixmap example_raster pg 1 = Inr img) [1, 2] [101, 102]"
    by (simp add: example_raster_def example_get_pixmap_def)
  have h3: "list_all2 (\<lambda>img px. pil2pixmap example_raster img = Inr px) [101, 102] [101, 102]"
    by (simp add: example_raster_def example_pil2pixmap_def)
  let ?lw0 = "\<lparr>items = [\<lparr>data = \<lparr>pdf_path = ''a.pdf'', page_number = 0, pixmap = 101 :: nat,
                               direct_texts = [hi_text ''Helvetica'']\<rparr>\<rparr>],
           current_row = 0\<rparr>"
  note th = add_pdf_appends_one_entry_per_page[OF h1 h2 h3,
      of "\<lparr>items = [], current_row = - 1\<rparr>" "[0]" ?lw0 0]
  have l: "(0::nat) < length (items ?lw0)" by simp
  from th l have rm: "items (remove_selected [0] ?lw0) = []" by simp
  from th have "items (fst (add_pdf example_raster [''a.pdf''] (remove_selected [0] ?lw0))) =
         items (remove_selected [0] ?lw0) @
         map (\<lambda>(i, px). \<lparr>data = \<lparr>pdf_path = ''a.pdf'', page_number = i, pixmap = px,
                                       direct_texts = []\<rparr>\<rparr>)
           (enumerate 0 [101, 102])"
    by blast
  then have ad: "items (fst (add_pdf example_raster [''a.pdf''] (remove_selected [0] ?lw0))) =
      [\<lparr>data = \<lparr>pdf_path = ''a.pdf'', page_number = 0, pixmap = 101, direct_texts = []\<rparr>\<rparr>,
       \<lparr>data = \<lparr>pdf_path = ''a.pdf'', page_number = 1, pixmap = 102, direct_texts = []\<rparr>\<rparr>]"
    unfolding rm by (simp add: enumerate_simps)
  have g: "get_pixmap example_raster 1 1 = Inr 101" "get_pixmap example_raster 2 1 = Inr 102"
      "pil2pixmap example_raster 101 = Inr 101" "pil2pixmap example_raster 102 = Inr 102"
    by (simp_all add: example_raster_def example_get_pixmap_def example_pil2pixmap_def)
  show ?thesis
    using h1 g l rm ad by simp
qed

end
